theory Spec2Isabelle
  imports Main
begin

section \<open>Exceptions of the profile module\<close>

text \<open>
  Every \<^verbatim>\<open>raise\<close> of \<^verbatim>\<open>digi/xbee/profile.py\<close> is a value of type \<open>exn\<close>.
  An \<^verbatim>\<open>UpdateProfileException\<close> carries the message constant it was built from
  (the \<^verbatim>\<open>_ERROR_...\<close> constants of the module); the text formatted into the message
  is not modelled.
\<close>

datatype update_error =
    ERROR_OPEN_DEVICE
  | ERROR_READ_REMOTE_PARAMETER
  | ERROR_HARDWARE_NOT_COMPATIBLE
  | ERROR_FIRMWARE_NOT_COMPATIBLE
  | ERROR_HARDWARE_VERSION_NOT_SUPPORTED
  | ERROR_UPDATE_FIRMWARE
  | ERROR_UPDATE_SETTINGS_PROTOCOL_CHANGE
  | ERROR_UPDATE_SETTINGS
  | ERROR_UPDATE_SERIAL_PORT
  | ERROR_UPDATE_TARGET_INFORMATION
  | ERROR_FILESYSTEM_NOT_SUPPORTED
  | ERROR_UPDATE_FILESYSTEM
  | ERROR_UPDATE_FILESYSTEM_PROTOCOL_CHANGE
  | ERROR_PROFILE_INVALID

datatype exn =
    ValueError
  | TypeError
  | AttributeError
  | IndexError
  | XBeeException
  | TimeoutException
  | ATCommandException
  | InvalidOperatingModeException
  | FirmwareUpdateException
  | FileSystemException
  | FileSystemNotSupportedException
  | SerialException
  | PermissionError
  | FileExistsError
  | ReadProfileException
  | UpdateProfileException update_error

text \<open>
  \<^verbatim>\<open>except XBeeException\<close> catches the class and its subclasses. The library's own
  exceptions all derive from \<^verbatim>\<open>XBeeException\<close>; \<^verbatim>\<open>SerialException\<close> (pyserial) and the
  Python built-ins do not.
\<close>

fun is_XBeeException :: "exn \<Rightarrow> bool" where
  "is_XBeeException XBeeException = True"
| "is_XBeeException TimeoutException = True"
| "is_XBeeException ATCommandException = True"
| "is_XBeeException InvalidOperatingModeException = True"
| "is_XBeeException FirmwareUpdateException = True"
| "is_XBeeException FileSystemException = True"
| "is_XBeeException FileSystemNotSupportedException = True"
| "is_XBeeException ReadProfileException = True"
| "is_XBeeException (UpdateProfileException e) = True"
| "is_XBeeException _ = False"

fun is_FileSystemException :: "exn \<Rightarrow> bool" where
  "is_FileSystemException FileSystemException = True"
| "is_FileSystemException FileSystemNotSupportedException = True"
| "is_FileSystemException _ = False"

section \<open>Python built-ins on strings\<close>

text \<open>
  A Python \<^verbatim>\<open>str\<close> is modelled as a \<open>string\<close> holding its UTF-8 bytes, so
  \<^verbatim>\<open>bytearray(s, 'utf8')\<close> is the list of the character codes. Only ASCII white space,
  digits and letters are recognised by \<open>py_int\<close> and \<open>py_upper\<close>.
\<close>

definition py_isspace :: "char \<Rightarrow> bool" where
  "py_isspace c = ((of_char c :: nat) \<in> {9, 10, 11, 12, 13, 28, 29, 30, 31, 32})"

definition py_strip :: "string \<Rightarrow> string" where
  "py_strip s = rev (dropWhile py_isspace (rev (dropWhile py_isspace s)))"

definition digit_value :: "char \<Rightarrow> nat option" where
  "digit_value c =
     (let n = (of_char c :: nat) in
      if 48 \<le> n \<and> n \<le> 57 then Some (n - 48)
      else if 97 \<le> n \<and> n \<le> 122 then Some (n - 87)
      else if 65 \<le> n \<and> n \<le> 90 then Some (n - 55)
      else None)"

definition digit_in_base :: "nat \<Rightarrow> char \<Rightarrow> nat option" where
  "digit_in_base b c =
     (case digit_value c of
        None \<Rightarrow> None
      | Some v \<Rightarrow> if v < b then Some v else None)"

text \<open>
  The digits of an integer literal after its first digit: a single underscore may stand
  between two digits.
\<close>

fun py_digits_acc :: "nat \<Rightarrow> nat \<Rightarrow> string \<Rightarrow> nat option" where
  "py_digits_acc b acc [] = Some acc"
| "py_digits_acc b acc [c] =
     (case digit_in_base b c of
        None \<Rightarrow> None
      | Some v \<Rightarrow> Some (acc * b + v))"
| "py_digits_acc b acc (c # d # ds) =
     (if c = CHR ''_'' then
        (case digit_in_base b d of
           None \<Rightarrow> None
         | Some v \<Rightarrow> py_digits_acc b (acc * b + v) ds)
      else
        (case digit_in_base b c of
           None \<Rightarrow> None
         | Some v \<Rightarrow> py_digits_acc b (acc * b + v) (d # ds)))"

definition py_digits :: "nat \<Rightarrow> string \<Rightarrow> nat option" where
  "py_digits b s =
     (case s of
        [] \<Rightarrow> None
      | c # cs \<Rightarrow>
          (case digit_in_base b c of
             None \<Rightarrow> None
           | Some v \<Rightarrow> py_digits_acc b v cs))"

definition drop_underscore :: "string \<Rightarrow> string" where
  "drop_underscore r = (case r of [] \<Rightarrow> [] | c # cs \<Rightarrow> if c = CHR ''_'' then cs else r)"

text \<open>
  The base prefix of a literal: \<^verbatim>\<open>0x\<close>, \<^verbatim>\<open>0o\<close>, \<^verbatim>\<open>0b\<close> are read when the base is the
  matching one or 0 (auto detection). The result is the base to read the rest in.
\<close>

definition split_prefix :: "nat \<Rightarrow> string \<Rightarrow> nat \<times> string" where
  "split_prefix b u =
     (let plain = (if b = 0 then 10 else b, u) in
      case u of
        c0 # c1 # r \<Rightarrow>
          if c0 \<noteq> CHR ''0'' then plain
          else if (c1 = CHR ''x'' \<or> c1 = CHR ''X'') \<and> (b = 16 \<or> b = 0) then (16, drop_underscore r)
          else if (c1 = CHR ''o'' \<or> c1 = CHR ''O'') \<and> (b = 8 \<or> b = 0) then (8, drop_underscore r)
          else if (c1 = CHR ''b'' \<or> c1 = CHR ''B'') \<and> (b = 2 \<or> b = 0) then (2, drop_underscore r)
          else plain
      | _ \<Rightarrow> plain)"

text \<open>
  \<^verbatim>\<open>int(s, base)\<close> for a string \<open>s\<close>: white space is stripped, a sign is read, then the
  prefix and the digits. With base 0 a decimal literal with a leading zero must be zero.
\<close>

definition py_int :: "nat \<Rightarrow> string \<Rightarrow> exn + int" where
  "py_int b s =
     (let t = py_strip s;
          neg = (t \<noteq> [] \<and> hd t = CHR ''-'');
          u = (if t \<noteq> [] \<and> (hd t = CHR ''-'' \<or> hd t = CHR ''+'') then tl t else t);
          (b', w) = split_prefix b u
      in case py_digits b' w of
           None \<Rightarrow> Inl ValueError
         | Some n \<Rightarrow>
             if b = 0 \<and> b' = 10 \<and> w \<noteq> [] \<and> hd w = CHR ''0'' \<and> n \<noteq> 0 then Inl ValueError
             else Inr (if neg then - int n else int n))"

text \<open>\<^verbatim>\<open>s.split(sep)\<close> with a one-character separator.\<close>

fun py_split :: "char \<Rightarrow> string \<Rightarrow> string list" where
  "py_split sep [] = [[]]"
| "py_split sep (c # cs) =
     (if c = sep then [] # py_split sep cs
      else (case py_split sep cs of
              [] \<Rightarrow> [[c]]
            | t # ts \<Rightarrow> (c # t) # ts))"

definition py_upper :: "string \<Rightarrow> string" where
  "py_upper s =
     map (\<lambda>c. let n = (of_char c :: nat) in
               if 97 \<le> n \<and> n \<le> 122 then char_of (n - 32) else c) s"

text \<open>\<^verbatim>\<open>bytearray(s, 'utf8')\<close>.\<close>

definition utf8_bytes :: "string \<Rightarrow> nat list" where
  "utf8_bytes s = map of_char s"

text \<open>\<^verbatim>\<open>bytearray(ints)\<close>: every element must be in \<^verbatim>\<open>range(256)\<close>.\<close>

definition bytearray_of_ints :: "int list \<Rightarrow> exn + nat list" where
  "bytearray_of_ints xs =
     (if list_all (\<lambda>x. 0 \<le> x \<and> x < 256) xs then Inr (map nat xs) else Inl ValueError)"

text \<open>\<^verbatim>\<open>list(map(int, tokens))\<close>: the first token that does not parse raises.\<close>

fun map_int :: "string list \<Rightarrow> exn + int list" where
  "map_int [] = Inr []"
| "map_int (t # ts) =
     (case py_int 10 t of
        Inl e \<Rightarrow> Inl e
      | Inr n \<Rightarrow> (case map_int ts of Inl e \<Rightarrow> Inl e | Inr ns \<Rightarrow> Inr (n # ns)))"

section \<open>Helpers of \<^verbatim>\<open>digi.xbee.util.utils\<close>\<close>

text \<open>
  Modelled from the spec: \<^verbatim>\<open>utils.int_to_bytes\<close> is not among the source files. The
  spec renders the firmware version "as a fixed 2-byte hex string" whose length may differ
  from 4, so the number is written big-endian in as many bytes as it needs (at least one)
  and padded on the left with zero bytes up to \<open>num_bytes\<close>.
\<close>

function bytes_of_nat :: "nat \<Rightarrow> nat list \<Rightarrow> nat list" where
  "bytes_of_nat n acc =
     (if n < 256 then n # acc else bytes_of_nat (n div 256) (n mod 256 # acc))"
  by pat_completeness auto
termination
  by (relation "measure fst") auto

definition int_to_bytes :: "nat \<Rightarrow> nat option \<Rightarrow> nat list" where
  "int_to_bytes number num_bytes =
     (let byte_array = bytes_of_nat number [] in
      case num_bytes of
        None \<Rightarrow> byte_array
      | Some k \<Rightarrow> replicate (k - length byte_array) 0 @ byte_array)"

text \<open>
  Modelled from the spec: \<^verbatim>\<open>utils.hex_to_string\<close> is not among the source files. Each
  byte is rendered as two upper-case hexadecimal digits; \<open>pretty\<close> separates the bytes
  with a space.
\<close>

definition hex_digit :: "nat \<Rightarrow> char" where
  "hex_digit d = ''0123456789ABCDEF'' ! (d mod 16)"

definition byte_to_hex :: "nat \<Rightarrow> string" where
  "byte_to_hex b = [hex_digit (b div 16 mod 16), hex_digit (b mod 16)]"

fun join_strings :: "string \<Rightarrow> string list \<Rightarrow> string" where
  "join_strings sep [] = []"
| "join_strings sep [s] = s"
| "join_strings sep (s # t # ts) = s @ sep @ join_strings sep (t # ts)"

definition hex_to_string :: "nat list \<Rightarrow> bool \<Rightarrow> string" where
  "hex_to_string byte_array pretty =
     join_strings (if pretty then '' '' else []) (map byte_to_hex byte_array)"

text \<open>
  Modelled from the spec: \<^verbatim>\<open>utils.hex_string_to_bytes\<close> is not among the source files.
  The spec's rule is "decode \<open>raw\<close> as a hexadecimal string": the string is read as a
  hexadecimal number and written as its bytes. A value that is not a string, a string that
  is no hexadecimal number and a negative number raise.
\<close>

definition hex_string_to_bytes :: "string option \<Rightarrow> exn + nat list" where
  "hex_string_to_bytes hex_string =
     (case hex_string of
        None \<Rightarrow> Inl TypeError
      | Some s \<Rightarrow>
          (case py_int 16 s of
             Inl e \<Rightarrow> Inl e
           | Inr aux \<Rightarrow> if aux < 0 then Inl ValueError else Inr (int_to_bytes (nat aux) None)))"

section \<open>Setting types, formats and the setting codec\<close>

datatype FlashFirmwareOption = FLASH_ALWAYS | FLASH_DIFFERENT | DONT_FLASH

fun FlashFirmwareOption_code :: "FlashFirmwareOption \<Rightarrow> nat" where
  "FlashFirmwareOption_code FLASH_ALWAYS = 0"
| "FlashFirmwareOption_code FLASH_DIFFERENT = 1"
| "FlashFirmwareOption_code DONT_FLASH = 2"

datatype XBeeSettingType = NUMBER | COMBO | TEXT | BUTTON | NO_TYPE

datatype XBeeSettingFormat = HEX | ASCII | IPV4 | IPV6 | PHONE | NO_FORMAT

text \<open>
  \<^verbatim>\<open>XBeeSettingType.get(tag)\<close> and \<^verbatim>\<open>XBeeSettingFormat.get(tag)\<close>: the member with the
  given tag, \<^verbatim>\<open>None\<close> when no member has it. The tag is the text of an XML element, which
  is \<^verbatim>\<open>None\<close> for an empty element.
\<close>

definition XBeeSettingType_get :: "string option \<Rightarrow> XBeeSettingType option" where
  "XBeeSettingType_get tag =
     (if tag = Some ''number'' then Some NUMBER
      else if tag = Some ''combo'' then Some COMBO
      else if tag = Some ''text'' then Some TEXT
      else if tag = Some ''button'' then Some BUTTON
      else if tag = Some ''none'' then Some NO_TYPE
      else None)"

definition XBeeSettingFormat_get :: "string option \<Rightarrow> XBeeSettingFormat option" where
  "XBeeSettingFormat_get tag =
     (if tag = Some ''HEX'' then Some HEX
      else if tag = Some ''ASCII'' then Some ASCII
      else if tag = Some ''IPV4'' then Some IPV4
      else if tag = Some ''IPV6'' then Some IPV6
      else if tag = Some ''PHONE'' then Some PHONE
      else if tag = Some ''none'' then Some NO_FORMAT
      else None)"

text \<open>
  What \<^verbatim>\<open>_setting_value_to_bytearray\<close> returns: a byte array, or (its last line) the raw
  value itself, unchanged.
\<close>

datatype setting_value = ByteArray "nat list" | RawValue "string option"

definition IPV4_SEPARATOR :: char where
  "IPV4_SEPARATOR = CHR ''.''"

definition IPV6_SEPARATOR :: char where
  "IPV6_SEPARATOR = CHR '':''"

definition as_bytearray :: "exn + nat list \<Rightarrow> exn + setting_value" where
  "as_bytearray r = (case r of Inl e \<Rightarrow> Inl e | Inr bs \<Rightarrow> Inr (ByteArray bs))"

text \<open>
  \<^verbatim>\<open>XBeeProfileSetting._setting_value_to_bytearray\<close>. Type and format are \<^verbatim>\<open>None\<close> when
  the descriptor's tag is unknown; the value is \<^verbatim>\<open>None\<close> when the profile's setting
  element is empty.
\<close>

definition setting_value_to_bytearray ::
  "XBeeSettingType option \<Rightarrow> XBeeSettingFormat option \<Rightarrow> string option \<Rightarrow> exn + setting_value" where
  "setting_value_to_bytearray ty fmt v =
     (if ty = Some COMBO \<or> ty = Some NUMBER then as_bytearray (hex_string_to_bytes v)
      else if ty = Some TEXT then
        (if fmt = Some ASCII \<or> fmt = Some PHONE then
           (case v of None \<Rightarrow> Inl TypeError | Some s \<Rightarrow> Inr (ByteArray (utf8_bytes s)))
         else if fmt = Some HEX \<or> fmt = Some NO_FORMAT then as_bytearray (hex_string_to_bytes v)
         else if fmt = Some IPV4 then
           (case v of
              None \<Rightarrow> Inl AttributeError
            | Some s \<Rightarrow>
                (case map_int (py_split IPV4_SEPARATOR s) of
                   Inl e \<Rightarrow> Inl e
                 | Inr octets \<Rightarrow> as_bytearray (bytearray_of_ints octets)))
         else if fmt = Some IPV6 then
           (case v of
              None \<Rightarrow> Inl TypeError
            | Some s \<Rightarrow>
                if IPV6_SEPARATOR \<in> set s then Inr (ByteArray (utf8_bytes s))
                else Inr (RawValue v))
         else Inr (RawValue v))
      else if ty = Some BUTTON \<or> ty = Some NO_TYPE then Inr (ByteArray [])
      else Inr (RawValue v))"

record XBeeProfileSetting =
  name :: string
  type :: "XBeeSettingType option"
  format :: "XBeeSettingFormat option"
  "value" :: "string option"
  bytearray_value :: setting_value

text \<open>The constructor \<^verbatim>\<open>XBeeProfileSetting.__init__\<close>: it encodes the value once.\<close>

definition new_XBeeProfileSetting ::
  "string \<Rightarrow> XBeeSettingType option \<Rightarrow> XBeeSettingFormat option \<Rightarrow> string option
     \<Rightarrow> exn + XBeeProfileSetting" where
  "new_XBeeProfileSetting n ty fmt v =
     (case setting_value_to_bytearray ty fmt v of
        Inl e \<Rightarrow> Inl e
      | Inr bs \<Rightarrow>
          Inr \<lparr>name = n, type = ty, format = fmt, value = v, bytearray_value = bs\<rparr>)"

section \<open>Region lock of the firmware descriptor\<close>

text \<open>
  The firmware version rendered as in \<^verbatim>\<open>_parse_xml_firmware_file\<close>:
  \<^verbatim>\<open>utils.hex_to_string(utils.int_to_bytes(fw, num_bytes=2), pretty=False)\<close>.
\<close>

definition fw_version_str :: "nat \<Rightarrow> string" where
  "fw_version_str fw = hex_to_string (int_to_bytes fw (Some 2)) False"

text \<open>
  The region lock as \<^verbatim>\<open>_parse_xml_firmware_file\<close> resolves it (lines 977 to 992):
  \<open>region\<close> is the parsed \<^verbatim>\<open>firmware/region\<close> element, \<^verbatim>\<open>None\<close> when the element is
  missing. \<^verbatim>\<open>fw_version_str[1:2]\<close> is the slice \<open>take 1 (drop 1 s)\<close>.
\<close>

definition resolve_region_lock :: "int option \<Rightarrow> nat \<Rightarrow> exn + int option" where
  "resolve_region_lock region fw =
     (if region = Some 99 then
        (let s = fw_version_str fw in
         if length s \<noteq> 4 then Inr (Some 0)
         else (case py_int 0 (take 1 (drop 1 s)) of
                 Inl e \<Rightarrow> Inl e
               | Inr n \<Rightarrow> Inr (Some n)))
      else Inr region)"

section \<open>The profile archive: AT settings of the firmware descriptor\<close>

text \<open>
  A \<^verbatim>\<open><setting>\<close> element of the firmware descriptor, as \<^verbatim>\<open>_parse_xml_firmware_file\<close>
  and \<^verbatim>\<open>get_setting_default_value\<close> read it: the \<^verbatim>\<open>command\<close> attribute (\<^verbatim>\<open>None\<close>
  when missing) and the \<^verbatim>\<open>control_type\<close>, \<^verbatim>\<open>format\<close> and \<^verbatim>\<open>default_value\<close> children
  (\<open>None\<close> when the child is missing, else the child's text, itself \<^verbatim>\<open>None\<close> when
  empty).
\<close>

record firmware_setting =
  fs_command :: "string option"
  fs_control_type :: "string option option"
  fs_format :: "string option option"
  fs_default_value :: "string option option"

text \<open>
  A Python \<^verbatim>\<open>dict\<close> keeps insertion order; assigning to a key it holds replaces the
  value in place.
\<close>

fun dict_set :: "'k \<Rightarrow> 'v \<Rightarrow> ('k \<times> 'v) list \<Rightarrow> ('k \<times> 'v) list" where
  "dict_set k v [] = [(k, v)]"
| "dict_set k v ((k', v') # kvs) =
     (if k' = k then (k, v) # kvs else (k', v') # dict_set k v kvs)"

text \<open>
  \<^verbatim>\<open>_parse_xml_profile_file\<close>, the loop over the \<^verbatim>\<open>profile/settings/setting\<close>
  elements: \<^verbatim>\<open>self._raw_settings[setting_name] = setting_value\<close>. An element is the pair
  of its \<^verbatim>\<open>command\<close> attribute and its text.
\<close>

fun read_raw_settings ::
  "(string option \<times> string option) list \<Rightarrow> (string option \<times> string option) list
     \<Rightarrow> (string option \<times> string option) list" where
  "read_raw_settings [] raw_settings = raw_settings"
| "read_raw_settings ((setting_name, setting_value) # setting_elements) raw_settings =
     read_raw_settings setting_elements (dict_set setting_name setting_value raw_settings)"

text \<open>
  The type and the format \<^verbatim>\<open>_parse_xml_firmware_file\<close> takes from a matching descriptor
  entry (lines 1011 to 1018): the default when the child element is missing, else the
  enumeration member with the child's text as tag (\<^verbatim>\<open>None\<close> for an unknown tag).
\<close>

definition setting_type_of :: "firmware_setting \<Rightarrow> XBeeSettingType option" where
  "setting_type_of firmware_setting_element =
     (case fs_control_type firmware_setting_element of
        None \<Rightarrow> Some NO_TYPE
      | Some text \<Rightarrow> XBeeSettingType_get text)"

definition setting_format_of :: "firmware_setting \<Rightarrow> XBeeSettingFormat option" where
  "setting_format_of firmware_setting_element =
     (case fs_format firmware_setting_element of
        None \<Rightarrow> Some NO_FORMAT
      | Some text \<Rightarrow> XBeeSettingFormat_get text)"

text \<open>
  The inner loop of \<^verbatim>\<open>_parse_xml_firmware_file\<close> (lines 1009 to 1026) for one raw
  setting: every descriptor entry with the same command builds a profile setting and
  stores it under its upper-case name. \<^verbatim>\<open>setting_element.upper()\<close> raises when the
  command is \<^verbatim>\<open>None\<close>; the debug log reads \<^verbatim>\<open>type.description\<close> and
  \<^verbatim>\<open>format.description\<close>, which raises when either is \<^verbatim>\<open>None\<close>.
\<close>

fun match_firmware_settings ::
  "string option \<Rightarrow> string option \<Rightarrow> firmware_setting list
     \<Rightarrow> (string \<times> XBeeProfileSetting) list \<Rightarrow> exn + (string \<times> XBeeProfileSetting) list" where
  "match_firmware_settings setting_element setting_value [] profile_settings =
     Inr profile_settings"
| "match_firmware_settings setting_element setting_value (fse # rest) profile_settings =
     (if fs_command fse = setting_element then
        (case setting_element of
           None \<Rightarrow> Inl AttributeError
         | Some cmd \<Rightarrow>
             (case new_XBeeProfileSetting (py_upper cmd) (setting_type_of fse)
                     (setting_format_of fse) setting_value of
                Inl e \<Rightarrow> Inl e
              | Inr profile_setting \<Rightarrow>
                  if type profile_setting = None \<or> format profile_setting = None
                  then Inl AttributeError
                  else match_firmware_settings setting_element setting_value rest
                         (dict_set (name profile_setting) profile_setting profile_settings)))
      else match_firmware_settings setting_element setting_value rest profile_settings)"

text \<open>The outer loop over \<^verbatim>\<open>self._raw_settings.items()\<close> (line 1008).\<close>

fun parse_at_settings ::
  "(string option \<times> string option) list \<Rightarrow> firmware_setting list
     \<Rightarrow> (string \<times> XBeeProfileSetting) list \<Rightarrow> exn + (string \<times> XBeeProfileSetting) list" where
  "parse_at_settings [] firmware_settings profile_settings = Inr profile_settings"
| "parse_at_settings ((setting_element, setting_value) # raw) firmware_settings profile_settings =
     (case match_firmware_settings setting_element setting_value firmware_settings
             profile_settings of
        Inl e \<Rightarrow> Inl e
      | Inr profile_settings' \<Rightarrow> parse_at_settings raw firmware_settings profile_settings')"

text \<open>
  The settings of a parsed archive: \<^verbatim>\<open>_initialize_profile\<close> turns every exception of
  the parse into a \<^verbatim>\<open>ReadProfileException\<close>.
\<close>

definition parse_profile_settings ::
  "(string option \<times> string option) list \<Rightarrow> firmware_setting list
     \<Rightarrow> exn + (string \<times> XBeeProfileSetting) list" where
  "parse_profile_settings raw_settings firmware_settings =
     (case parse_at_settings raw_settings firmware_settings [] of
        Inl e \<Rightarrow> Inl ReadProfileException
      | Inr profile_settings \<Rightarrow> Inr profile_settings)"

text \<open>
  \<^verbatim>\<open>get_setting_default_value\<close>: the text of the \<^verbatim>\<open>default_value\<close> child of the first
  descriptor entry with the given command, \<^verbatim>\<open>None\<close> when there is no such entry or
  child.
\<close>

fun get_setting_default_value :: "firmware_setting list \<Rightarrow> string \<Rightarrow> string option" where
  "get_setting_default_value [] setting_name = None"
| "get_setting_default_value (fse # rest) setting_name =
     (if fs_command fse = Some setting_name then
        (case fs_default_value fse of None \<Rightarrow> None | Some text \<Rightarrow> text)
      else get_setting_default_value rest setting_name)"

section \<open>The profile archive: scratch directory\<close>

text \<open>
  The names \<^verbatim>\<open>hasattr\<close> finds on an \<^verbatim>\<open>XBeeProfile\<close> object: the instance attributes
  \<^verbatim>\<open>__init__\<close> assigns (lines 738 to 761) and the methods and properties of the class
  (which has no base class but \<^verbatim>\<open>object\<close>, whose attributes are all dunder names).
\<close>

definition XBeeProfile_attribute_names :: "string list" where
  "XBeeProfile_attribute_names =
     [''_profile_file'', ''_profile_folder'', ''_profile_xml_file'', ''_firmware_xml_file'',
      ''_bootloader_file'', ''_version'', ''_flash_firmware_option'', ''_description'',
      ''_reset_settings'', ''_raw_settings'', ''_profile_settings'', ''_file_system_path'',
      ''_remote_file_system_image'', ''_cellular_firmware_files'',
      ''_cellular_bootloader_files'', ''_firmware_version'', ''_hardware_version'',
      ''_compatibility_number'', ''_region_lock'', ''_has_local_filesystem'',
      ''_has_remote_filesystem'', ''_has_local_firmware'', ''_has_remote_firmware'',
      ''_protocol'',
      ''__init__'', ''__del__'', ''_parse_xml_profile_file'', ''_uncompress_profile'',
      ''_initialize_profile'', ''_check_profile_integrity'', ''_parse_xml_firmware_file'',
      ''get_setting_default_value'', ''_throw_read_exception'',
      ''profile_file'', ''version'', ''flash_firmware_option'', ''description'',
      ''reset_settings'', ''has_local_filesystem'', ''has_remote_filesystem'',
      ''has_filesystem'', ''has_local_firmware_files'', ''has_remote_firmware_files'',
      ''has_firmware_files'', ''profile_settings'', ''firmware_version'',
      ''hardware_version'', ''compatibility_number'', ''region_lock'',
      ''firmware_description_file'', ''file_system_path'', ''remote_file_system_image'',
      ''bootloader_file'', ''protocol'']"

definition hasattr_XBeeProfile :: "string \<Rightarrow> bool" where
  "hasattr_XBeeProfile attr = (attr \<in> set XBeeProfile_attribute_names)"

text \<open>
  The extraction state of a profile object and the disk: \<open>priv_profile_folder\<close> is the
  attribute \<^verbatim>\<open>_profile_folder\<close>, \<open>directories\<close> the directories that exist.
\<close>

record extraction =
  priv_profile_folder :: "string option"
  directories :: "string set"

text \<open>
  \<^verbatim>\<open>_uncompress_profile\<close>: \<open>mkdtemp\<close> is what \<^verbatim>\<open>tempfile.mkdtemp()\<close> does (the new
  directory, or the exception), \<open>extract\<close> the exception of \<^verbatim>\<open>extractall\<close>, if any. The
  asset paths it fills are not modelled.
\<close>

definition uncompress_profile ::
  "exn + string \<Rightarrow> exn option \<Rightarrow> extraction \<Rightarrow> exn option \<times> extraction" where
  "uncompress_profile mkdtemp extract x =
     (case mkdtemp of
        Inl e \<Rightarrow>
          (Some (if e = PermissionError \<or> e = FileExistsError then ReadProfileException else e), x)
      | Inr folder \<Rightarrow>
          (let x1 = x\<lparr>priv_profile_folder := Some folder,
                      directories := insert folder (directories x)\<rparr>
           in case extract of
                Some e \<Rightarrow> (Some ReadProfileException, x1)
              | None \<Rightarrow> (None, x1)))"

text \<open>
  The lazy asset accessors (\<^verbatim>\<open>firmware_description_file\<close>, \<^verbatim>\<open>file_system_path\<close>,
  \<^verbatim>\<open>remote_file_system_image\<close>, \<^verbatim>\<open>bootloader_file\<close>) all start the same way.
\<close>

definition lazy_asset_access ::
  "exn + string \<Rightarrow> exn option \<Rightarrow> extraction \<Rightarrow> exn option \<times> extraction" where
  "lazy_asset_access mkdtemp extract x =
     (if priv_profile_folder x = None then uncompress_profile mkdtemp extract x
      else (None, x))"

text \<open>
  \<^verbatim>\<open>XBeeProfile.__del__\<close> (lines 765 to 770): \<^verbatim>\<open>shutil.rmtree\<close> removes the
  directory.
\<close>

definition XBeeProfile_del :: "extraction \<Rightarrow> extraction" where
  "XBeeProfile_del x =
     (if \<not> hasattr_XBeeProfile ''profile_folder'' then x
      else (case priv_profile_folder x of
              None \<Rightarrow> x
            | Some folder \<Rightarrow>
                if folder \<in> directories x
                then x\<lparr>directories := directories x - {folder}\<rparr>
                else x))"

section \<open>The update target, the profile and the device handle\<close>

text \<open>
  Modelled from the spec: \<^verbatim>\<open>digi/xbee/models/protocol.py\<close> is not among the source
  files. The module under study names two members, \<^verbatim>\<open>XBeeProtocol.UNKNOWN\<close> and
  \<^verbatim>\<open>XBeeProtocol.DIGI_MESH\<close> (the spec's "mesh-family sentinel"), and compares protocols
  for equality only.
\<close>

datatype XBeeProtocol = ZIGBEE | RAW_802_15_4 | DIGI_MESH | DIGI_POINT | UNKNOWN | OTHER_PROTOCOL nat

text \<open>
  The \<open>target\<close> argument: a string (a serial port, the recovery target), a local device
  handle (\<^verbatim>\<open>XBeeDevice\<close>), a remote one (\<^verbatim>\<open>RemoteXBeeDevice\<close>), or any other object. The
  state of a device handle is kept apart, in the record \<open>device\<close>.
\<close>

datatype target = SerialPort string | XBeeDevice | RemoteXBeeDevice | OtherObject

fun is_str :: "target \<Rightarrow> bool" where
  "is_str (SerialPort port) = True"
| "is_str _ = False"

fun is_remote :: "target \<Rightarrow> bool" where
  "is_remote RemoteXBeeDevice = True"
| "is_remote _ = False"

fun is_valid_target :: "target \<Rightarrow> bool" where
  "is_valid_target OtherObject = False"
| "is_valid_target _ = True"

text \<open>What the updater reads of a parsed \<^verbatim>\<open>XBeeProfile\<close>.\<close>

record XBeeProfile =
  flash_firmware_option :: FlashFirmwareOption
  reset_settings :: bool
  profile_settings :: "(string \<times> XBeeProfileSetting) list"
  firmware_version :: nat
  hardware_version :: "nat option"
  protocol :: XBeeProtocol
  has_local_filesystem :: bool
  has_remote_filesystem :: bool
  has_local_firmware_files :: bool
  firmware_settings :: "firmware_setting list"

definition has_filesystem :: "XBeeProfile \<Rightarrow> bool" where
  "has_filesystem P = (has_local_filesystem P \<or> has_remote_filesystem P)"

text \<open>
  The serial port settings \<^verbatim>\<open>_check_port_settings_changed\<close> rewrites, and the lookups of
  \<^verbatim>\<open>FirmwareBaudrate.get\<close>, \<^verbatim>\<open>FirmwareParity.get\<close> and \<^verbatim>\<open>FirmwareStopbits.get\<close>
  followed by the member's \<^verbatim>\<open>baudrate\<close>, \<^verbatim>\<open>parity\<close> or \<^verbatim>\<open>stop_bits\<close> (\<^verbatim>\<open>None\<close>
  when no member has the index).
\<close>

datatype serial_parity = PARITY_NONE | PARITY_EVEN | PARITY_ODD | PARITY_MARK | PARITY_SPACE

datatype serial_stopbits = STOPBITS_ONE | STOPBITS_TWO | STOPBITS_ONE_POINT_FIVE

record port_parameters =
  baudrate :: nat
  parity :: serial_parity
  stopbits :: serial_stopbits
  rtscts :: bool

definition FirmwareBaudrate_get :: "int \<Rightarrow> nat option" where
  "FirmwareBaudrate_get index =
     (if index = 0 then Some 1200 else if index = 1 then Some 2400
      else if index = 2 then Some 4800 else if index = 3 then Some 9600
      else if index = 4 then Some 19200 else if index = 5 then Some 38400
      else if index = 6 then Some 57600 else if index = 7 then Some 115200
      else if index = 8 then Some 230400 else if index = 9 then Some 460800
      else if index = 10 then Some 921600 else None)"

definition FirmwareParity_get :: "int \<Rightarrow> serial_parity option" where
  "FirmwareParity_get index =
     (if index = 0 then Some PARITY_NONE else if index = 1 then Some PARITY_EVEN
      else if index = 2 then Some PARITY_ODD else if index = 3 then Some PARITY_MARK
      else if index = 4 then Some PARITY_SPACE else None)"

definition FirmwareStopbits_get :: "int \<Rightarrow> serial_stopbits option" where
  "FirmwareStopbits_get index =
     (if index = 0 then Some STOPBITS_ONE else if index = 1 then Some STOPBITS_TWO
      else if index = 2 then Some STOPBITS_ONE_POINT_FIVE else None)"

text \<open>
  The state of a device handle that the updater reads or writes: whether the connection
  is open, the timeout of synchronous operations, the apply-changes (auto-apply) flag, the
  cached firmware version (bytes) and hardware version (its code; \<^verbatim>\<open>None\<close> when unknown),
  the protocol and the settings of the serial port.
\<close>

record device =
  is_open :: bool
  sync_ops_timeout :: int
  apply_changes_enabled :: bool
  get_firmware_version :: "nat list"
  get_hardware_version :: "nat option"
  get_protocol :: XBeeProtocol
  serial_port_settings :: port_parameters

section \<open>Collaborators and observable events\<close>

datatype fs_call =
    GetFileManager | Format | PutDir
  | NewLocalManager | Connect | FormatFilesystem | LegacyPutDir | Disconnect
  | UpdateFilesystemImage

text \<open>
  Every call the updater makes on a collaborator is logged, with its outcome where it has
  one. \<open>SetParameter\<close> is one attempt of \<^verbatim>\<open>set_parameter\<close>; \<open>UpdateFirmware\<close> is one call
  of the firmware-flash engine; \<open>Progress\<close> is one call of the progress callback.
\<close>

datatype event =
    Progress string "nat option"
  | SetSyncOpsTimeout int
  | Open bool
  | Close bool
  | GetParameter string bool
  | SetParameter string setting_value bool
  | EnableApplyChanges bool
  | UpdateFirmware bool
  | ApplySettings port_parameters bool
  | NetworkClear
  | NetworkRemoveDevice
  | ReadDeviceInfo bool
  | FileSystem fs_call bool
  | Sleep nat

text \<open>
  The collaborators are outside the module: the environment says, for a call made when
  \<open>n\<close> events have been logged, whether it raises and what it answers. The hardware
  tables \<^verbatim>\<open>firmware.SUPPORTED_HARDWARE_VERSIONS\<close> and
  \<^verbatim>\<open>filesystem.SUPPORTED_HARDWARE_VERSIONS\<close> and the protocol resolution are parameters
  too (their modules are not among the source files). \<open>is_open_after\<close> is the state of the
  connection of a local device after a collaborator that may close or reopen it (the flash
  engine, the file system managers); a remote handle has no connection of its own.
  \<open>recovery_device\<close> is the handle \<^verbatim>\<open>XBeeDevice(port=..., baud_rate=9600)\<close> built for a
  serial port target.
\<close>

record env =
  open_raises :: "nat \<Rightarrow> exn option"
  close_raises :: "nat \<Rightarrow> exn option"
  get_parameter_raises :: "nat \<Rightarrow> string \<Rightarrow> exn option"
  set_parameter_raises :: "nat \<Rightarrow> string \<Rightarrow> setting_value \<Rightarrow> exn option"
  operating_mode_code :: "nat \<Rightarrow> nat"
  uncompress_raises :: "nat \<Rightarrow> exn option"
  update_firmware_raises :: "nat \<Rightarrow> exn option"
  is_open_after :: "nat \<Rightarrow> bool \<Rightarrow> bool"
  apply_settings_raises :: "nat \<Rightarrow> exn option"
  read_device_info_raises :: "nat \<Rightarrow> exn option"
  check_fs_support :: "nat \<Rightarrow> bool"
  file_system_raises :: "nat \<Rightarrow> fs_call \<Rightarrow> exn option"
  collaborator_progress :: "nat \<Rightarrow> (string \<times> nat option) list"
  determine_protocol :: "nat option \<Rightarrow> nat list \<Rightarrow> XBeeProtocol"
  device_determine_protocol :: "nat option \<Rightarrow> nat list \<Rightarrow> XBeeProtocol"
  firmware_SUPPORTED_HARDWARE_VERSIONS :: "nat list"
  filesystem_SUPPORTED_HARDWARE_VERSIONS :: "nat list"
  recovery_device :: device

section \<open>The profile updater\<close>

text \<open>The arguments of \<^verbatim>\<open>_ProfileUpdater.__init__\<close>; \<open>progress_callback\<close> says whether
  a callback was given.\<close>

record updater =
  target :: target
  xbee_profile :: XBeeProfile
  timeout :: int
  progress_callback :: bool

text \<open>
  The mutable state of one update: the handle \<^verbatim>\<open>self._xbee_device\<close> (absent for a serial
  port until the firmware is flashed), the attributes of the updater, the profile's
  protocol (which \<^verbatim>\<open>_check_protocol_changed_by_settings\<close> may reassign), the local
  variables of \<^verbatim>\<open>_update_device_settings\<close>, and the log of events.
\<close>

record ustate =
  has_xbee_device :: bool
  xbee_device :: device
  was_connected :: bool
  device_firmware_version :: "int option"
  device_hardware_version :: "nat option"
  protocol_changed_by_fw :: bool
  protocol_changed_by_settings :: bool
  xpro_ap :: "setting_value option"
  profile_protocol :: XBeeProtocol
  network_settings_changed :: bool
  cache_settings_changed :: bool
  previous_percent :: nat
  setting_index :: nat
  num_settings :: nat
  events :: "event list"

definition is_local :: "updater \<Rightarrow> bool" where
  "is_local U = (\<not> is_remote (target U))"

definition PARAMETER_READ_RETRIES :: nat where
  "PARAMETER_READ_RETRIES = 3"

definition PARAMETER_WRITE_RETRIES :: nat where
  "PARAMETER_WRITE_RETRIES = 3"

definition PARAMETERS_SERIAL_PORT :: "string list" where
  "PARAMETERS_SERIAL_PORT = [''BD'', ''NB'', ''SB'', ''D7'']"

definition PARAMETERS_CACHE :: "string list" where
  "PARAMETERS_CACHE = [''NI'', ''CE'', ''SM'', ''BR'', ''MY'']"

definition PARAMETERS_NETWORK :: "string list" where
  "PARAMETERS_NETWORK = [''ID'', ''CH'', ''HP'', ''CM'', ''BR'', ''EE'', ''KY'']"

definition TASK_CONNECT_FILESYSTEM :: string where
  "TASK_CONNECT_FILESYSTEM = ''Connecting with device filesystem''"

definition TASK_FORMAT_FILESYSTEM :: string where
  "TASK_FORMAT_FILESYSTEM = ''Formatting filesystem''"

definition TASK_READING_DEVICE_PARAMETERS :: string where
  "TASK_READING_DEVICE_PARAMETERS = ''Reading device parameters''"

definition TASK_UPDATE_SETTINGS :: string where
  "TASK_UPDATE_SETTINGS = ''Updating XBee settings''"

text \<open>
  Modelled from the spec: \<^verbatim>\<open>digi/xbee/models/mode.py\<close> is not among the source files.
  The codes of the two API framing modes are the ones the comment of the cleanup names
  ("1 (API mode) or 2 (escaped API mode)", lines 1882 and 1883); AT (transparent) mode is
  code 0.
\<close>

definition AT_MODE_code :: nat where
  "AT_MODE_code = 0"

definition API_MODE_code :: nat where
  "API_MODE_code = 1"

definition ESCAPED_API_MODE_code :: nat where
  "ESCAPED_API_MODE_code = 2"

subsection \<open>Sequencing, exceptions and the log\<close>

definition now :: "ustate \<Rightarrow> nat" where
  "now s = length (events s)"

definition emit :: "event \<Rightarrow> ustate \<Rightarrow> ustate" where
  "emit e s = s\<lparr>events := events s @ [e]\<rparr>"

text \<open>Statement sequencing: an exception of the first part skips the second.\<close>

definition andthen ::
  "exn option \<times> ustate \<Rightarrow> (ustate \<Rightarrow> exn option \<times> ustate) \<Rightarrow> exn option \<times> ustate" where
  "andthen r f = (case r of (None, s) \<Rightarrow> f s | (Some e, s) \<Rightarrow> (Some e, s))"

text \<open>\<^verbatim>\<open>except <caught> as exc: raise UpdateProfileException(<msg> % str(exc))\<close>.\<close>

definition reraise ::
  "(exn \<Rightarrow> bool) \<Rightarrow> update_error \<Rightarrow> exn option \<times> ustate \<Rightarrow> exn option \<times> ustate" where
  "reraise caught msg r =
     (case r of
        (None, s) \<Rightarrow> (None, s)
      | (Some e, s) \<Rightarrow> (Some (if caught e then UpdateProfileException msg else e), s))"

text \<open>\<^verbatim>\<open>if self._progress_callback is not None: self._progress_callback(task, percent)\<close>.\<close>

definition callback :: "updater \<Rightarrow> string \<Rightarrow> nat option \<Rightarrow> ustate \<Rightarrow> ustate" where
  "callback U task percent s =
     (if progress_callback U then emit (Progress task percent) s else s)"

text \<open>The progress a collaborator reports through the callback it was handed.\<close>

definition collaborator_callbacks :: "env \<Rightarrow> updater \<Rightarrow> ustate \<Rightarrow> ustate" where
  "collaborator_callbacks E U s =
     (if progress_callback U
      then s\<lparr>events := events s @ map (\<lambda>(task, percent). Progress task percent)
                                      (collaborator_progress E (now s))\<rparr>
      else s)"

subsection \<open>Methods of the device handle\<close>

definition device_open :: "env \<Rightarrow> ustate \<Rightarrow> exn option \<times> ustate" where
  "device_open E s =
     (case open_raises E (now s) of
        Some e \<Rightarrow> (Some e, emit (Open False) s)
      | None \<Rightarrow> (None, emit (Open True) (s\<lparr>xbee_device := (xbee_device s)\<lparr>is_open := True\<rparr>\<rparr>)))"

definition device_close :: "env \<Rightarrow> ustate \<Rightarrow> exn option \<times> ustate" where
  "device_close E s =
     (case close_raises E (now s) of
        Some e \<Rightarrow> (Some e, emit (Close False) s)
      | None \<Rightarrow> (None, emit (Close True) (s\<lparr>xbee_device := (xbee_device s)\<lparr>is_open := False\<rparr>\<rparr>)))"

definition enable_apply_changes :: "bool \<Rightarrow> ustate \<Rightarrow> ustate" where
  "enable_apply_changes v s =
     emit (EnableApplyChanges v) (s\<lparr>xbee_device := (xbee_device s)\<lparr>apply_changes_enabled := v\<rparr>\<rparr>)"

definition set_sync_ops_timeout :: "int \<Rightarrow> ustate \<Rightarrow> ustate" where
  "set_sync_ops_timeout t s =
     emit (SetSyncOpsTimeout t) (s\<lparr>xbee_device := (xbee_device s)\<lparr>sync_ops_timeout := t\<rparr>\<rparr>)"

text \<open>A collaborator that may close or reopen the connection of a local device.\<close>

definition connection_side_effect :: "env \<Rightarrow> updater \<Rightarrow> ustate \<Rightarrow> ustate" where
  "connection_side_effect E U s =
     (if is_local U
      then s\<lparr>xbee_device :=
               (xbee_device s)\<lparr>is_open := is_open_after E (now s) (is_open (xbee_device s))\<rparr>\<rparr>
      else s)"

subsection \<open>Reading and writing parameters with retries\<close>

text \<open>
  \<^verbatim>\<open>_read_parameter_with_retries\<close>: only a \<^verbatim>\<open>TimeoutException\<close> is retried. The value
  read is taken from the handle's state by the caller.
\<close>

fun read_parameter_with_retries ::
  "env \<Rightarrow> string \<Rightarrow> nat \<Rightarrow> ustate \<Rightarrow> exn option \<times> ustate" where
  "read_parameter_with_retries E parameter 0 s = (Some XBeeException, s)"
| "read_parameter_with_retries E parameter (Suc retries) s =
     (case get_parameter_raises E (now s) parameter of
        None \<Rightarrow> (None, emit (GetParameter parameter True) s)
      | Some e \<Rightarrow>
          if e = TimeoutException
          then read_parameter_with_retries E parameter retries
                 (emit (Sleep 200) (emit (GetParameter parameter False) s))
          else (Some e, emit (GetParameter parameter False) s))"

text \<open>
  \<^verbatim>\<open>_set_parameter_with_retries\<close>: a \<^verbatim>\<open>TimeoutException\<close> or an
  \<^verbatim>\<open>ATCommandException\<close> is retried, after a pause (in milliseconds) unless it was the
  last attempt.
\<close>

fun set_parameter_with_retries ::
  "env \<Rightarrow> updater \<Rightarrow> string \<Rightarrow> setting_value \<Rightarrow> nat \<Rightarrow> ustate \<Rightarrow> exn option \<times> ustate" where
  "set_parameter_with_retries E U parameter v 0 s = (Some XBeeException, s)"
| "set_parameter_with_retries E U parameter v (Suc retries) s =
     (case set_parameter_raises E (now s) parameter v of
        None \<Rightarrow> (None, emit (SetParameter parameter v True) s)
      | Some e \<Rightarrow>
          if e = TimeoutException \<or> e = ATCommandException
          then set_parameter_with_retries E U parameter v retries
                 (if retries \<noteq> 0
                  then emit (Sleep (if is_local U then 200 else 5000))
                         (emit (SetParameter parameter v False) s)
                  else emit (SetParameter parameter v False) s)
          else (Some e, emit (SetParameter parameter v False) s))"

subsection \<open>Phase 1: reading the device parameters\<close>

text \<open>
  The firmware version as \<^verbatim>\<open>_read_device_parameters\<close> sanitizes it (line 1410):
  \<^verbatim>\<open>int(utils.hex_to_string(fw).replace(" ", ""), 16)\<close>.
\<close>

definition sanitize_firmware_version :: "nat list \<Rightarrow> exn + int" where
  "sanitize_firmware_version fw =
     py_int 16 (filter (\<lambda>c. c \<noteq> CHR '' '') (hex_to_string fw True))"

text \<open>
  \<^verbatim>\<open>_read_device_parameters\<close>. A local device is opened when it is closed, and its
  cached versions are used; a remote device is asked for \<^verbatim>\<open>VR\<close> and \<^verbatim>\<open>HV\<close>, and
  \<^verbatim>\<open>HardwareVersion.get\<close> of the first byte read is the handle's hardware version. The
  last debug log reads \<^verbatim>\<open>self._device_hardware_version.code\<close>, which raises when the
  hardware version is \<^verbatim>\<open>None\<close>.
\<close>

definition read_device_parameters :: "env \<Rightarrow> updater \<Rightarrow> ustate \<Rightarrow> exn option \<times> ustate" where
  "read_device_parameters E U s =
     (let s0 = callback U TASK_READING_DEVICE_PARAMETERS (Some 0) s in
      andthen
        (if is_local U then
           andthen
             (if \<not> is_open (xbee_device s0)
              then reraise is_XBeeException ERROR_OPEN_DEVICE
                     (device_open E (s0\<lparr>was_connected := False\<rparr>))
              else (None, s0))
             (\<lambda>s1. (None, s1\<lparr>device_hardware_version := get_hardware_version (xbee_device s1)\<rparr>))
         else
           reraise is_XBeeException ERROR_READ_REMOTE_PARAMETER
             (andthen (read_parameter_with_retries E ''VR'' PARAMETER_READ_RETRIES s0)
                (\<lambda>s1. andthen (read_parameter_with_retries E ''HV'' PARAMETER_READ_RETRIES s1)
                   (\<lambda>s2. (None, s2\<lparr>device_hardware_version :=
                                       get_hardware_version (xbee_device s2)\<rparr>)))))
        (\<lambda>s3. case sanitize_firmware_version (get_firmware_version (xbee_device s3)) of
                 Inl e \<Rightarrow> (Some e, s3)
               | Inr v \<Rightarrow>
                   (case device_hardware_version s3 of
                      None \<Rightarrow> (Some AttributeError, s3\<lparr>device_firmware_version := Some v\<rparr>)
                    | Some code \<Rightarrow> (None, s3\<lparr>device_firmware_version := Some v\<rparr>))))"

definition check_protocol_changed_by_fw :: "env \<Rightarrow> updater \<Rightarrow> ustate \<Rightarrow> bool" where
  "check_protocol_changed_by_fw E U s =
     (let orig_protocol = get_protocol (xbee_device s);
          new_protocol = determine_protocol E (hardware_version (xbee_profile U))
                           (int_to_bytes (firmware_version (xbee_profile U)) None)
      in orig_protocol \<noteq> new_protocol
         \<and> FlashFirmwareOption_code (flash_firmware_option (xbee_profile U)) < 2)"

text \<open>
  \<^verbatim>\<open>_check_protocol_changed_by_settings\<close>: the state it returns holds the profile's
  protocol (reassigned for \<^verbatim>\<open>DIGI_MESH\<close>) and the flag.
\<close>

definition check_protocol_changed_by_settings :: "env \<Rightarrow> updater \<Rightarrow> ustate \<Rightarrow> ustate" where
  "check_protocol_changed_by_settings E U s =
     (let s1 = (if profile_protocol s = DIGI_MESH
                then s\<lparr>profile_protocol :=
                         device_determine_protocol E (hardware_version (xbee_profile U))
                           (int_to_bytes (firmware_version (xbee_profile U)) None)\<rparr>
                else s)
      in s1\<lparr>protocol_changed_by_settings :=
               (get_protocol (xbee_device s1) \<noteq> profile_protocol s1
                \<and> FlashFirmwareOption_code (flash_firmware_option (xbee_profile U)) < 2)\<rparr>)"

text \<open>
  The first block of \<^verbatim>\<open>update_profile\<close>'s \<^verbatim>\<open>try\<close> (lines 1834 to 1849): the device
  parameters, the hardware check and the protocol predictions, or the defaults of a serial
  port target.
\<close>

definition retrieve_device_parameters :: "env \<Rightarrow> updater \<Rightarrow> ustate \<Rightarrow> exn option \<times> ustate" where
  "retrieve_device_parameters E U s =
     (if has_xbee_device s then
        andthen (read_device_parameters E U s)
          (\<lambda>s1. if device_hardware_version s1 \<noteq> hardware_version (xbee_profile U)
                 then (Some (UpdateProfileException ERROR_HARDWARE_NOT_COMPATIBLE), s1)
                 else (None, check_protocol_changed_by_settings E U
                               (s1\<lparr>protocol_changed_by_fw := check_protocol_changed_by_fw E U s1\<rparr>)))
      else
        (None, s\<lparr>was_connected := False,
                  device_firmware_version := Some 0,
                  device_hardware_version := None,
                  protocol_changed_by_fw := False,
                  protocol_changed_by_settings := False\<rparr>))"

subsection \<open>Phase 2: the firmware\<close>

text \<open>
  \<^verbatim>\<open>_update_firmware\<close>: reading \<^verbatim>\<open>firmware_description_file\<close> extracts the archive
  (which may raise), then the flash engine is called: \<^verbatim>\<open>firmware.update_local_firmware\<close>
  for a serial port, \<^verbatim>\<open>update_firmware\<close> of the handle otherwise.
\<close>

definition update_firmware :: "env \<Rightarrow> updater \<Rightarrow> ustate \<Rightarrow> exn option \<times> ustate" where
  "update_firmware E U s =
     (case uncompress_raises E (now s) of
        Some e \<Rightarrow> (Some e, s)
      | None \<Rightarrow>
          (let s1 = collaborator_callbacks E U s in
           case update_firmware_raises E (now s1) of
             None \<Rightarrow> (None, connection_side_effect E U (emit (UpdateFirmware True) s1))
           | Some e \<Rightarrow>
               (Some (if e = FirmwareUpdateException
                      then UpdateProfileException ERROR_UPDATE_FIRMWARE else e),
                connection_side_effect E U (emit (UpdateFirmware False) s1))))"

text \<open>
  Lines 1851 to 1872 of \<^verbatim>\<open>update_profile\<close>: the flash decision, the flash, and for a
  serial port the new device handle, opened with \<^verbatim>\<open>force_settings=True\<close>.
\<close>

definition flash_firmware_step :: "env \<Rightarrow> updater \<Rightarrow> ustate \<Rightarrow> exn option \<times> ustate" where
  "flash_firmware_step E U s =
     (let option = flash_firmware_option (xbee_profile U);
          firmware_is_the_same =
            (device_firmware_version s = Some (int (firmware_version (xbee_profile U))));
          flash_firmware =
            (if option = FLASH_ALWAYS then True
             else if option = FLASH_DIFFERENT then \<not> firmware_is_the_same
             else False)
      in if option \<noteq> FLASH_ALWAYS \<and> option \<noteq> FLASH_DIFFERENT
            \<and> option = DONT_FLASH \<and> \<not> firmware_is_the_same
         then (Some (UpdateProfileException ERROR_FIRMWARE_NOT_COMPATIBLE), s)
         else
           andthen
             (if \<not> has_xbee_device s \<or> flash_firmware then
                (if device_hardware_version s \<noteq> None
                    \<and> the (device_hardware_version s) \<notin> set (firmware_SUPPORTED_HARDWARE_VERSIONS E)
                 then (Some (UpdateProfileException ERROR_HARDWARE_VERSION_NOT_SUPPORTED), s)
                 else update_firmware E U s)
              else (None, s))
             (\<lambda>s1. if \<not> has_xbee_device s1 then
                      andthen
                        (device_open E
                           (s1\<lparr>has_xbee_device := True,
                               xbee_device := (recovery_device E)\<lparr>is_open := False\<rparr>\<rparr>))
                        (\<lambda>s2. (None, s2\<lparr>device_hardware_version :=
                                          get_hardware_version (xbee_device s2)\<rparr>))
                    else (None, s1)))"

subsection \<open>Phase 3: the settings\<close>

text \<open>
  The progress report that precedes each step of the settings phase (for example lines
  1648 to 1651): the percentage is \<^verbatim>\<open>setting_index * 100 // num_settings\<close>.
\<close>

definition report_settings_progress :: "updater \<Rightarrow> ustate \<Rightarrow> ustate" where
  "report_settings_progress U s =
     (let percent = setting_index s * 100 div num_settings s in
      if progress_callback U \<and> percent \<noteq> previous_percent s
      then (emit (Progress TASK_UPDATE_SETTINGS (Some percent)) s)\<lparr>previous_percent := percent\<rparr>
      else s)"

text \<open>
  The reset step (lines 1627 to 1645): \<^verbatim>\<open>RE\<close> is written, both change flags are set,
  and for a local device \<^verbatim>\<open>_xpro_ap\<close> becomes the byte of AT mode while the current
  operating mode is written back at once.
\<close>

definition reset_settings_step :: "env \<Rightarrow> updater \<Rightarrow> ustate \<Rightarrow> exn option \<times> ustate" where
  "reset_settings_step E U s =
     (let s1 = report_settings_progress U (s\<lparr>num_settings := num_settings s + 1\<rparr>) in
      andthen (set_parameter_with_retries E U ''RE'' (ByteArray []) PARAMETER_WRITE_RETRIES s1)
        (\<lambda>s2. let s3 = s2\<lparr>setting_index := setting_index s2 + 1,
                          network_settings_changed := True,
                          cache_settings_changed := True\<rparr>
               in if is_local U then
                    (let s4 = s3\<lparr>xpro_ap := Some (ByteArray [AT_MODE_code])\<rparr> in
                     set_parameter_with_retries E U ''AP''
                       (ByteArray [operating_mode_code E (now s4)]) PARAMETER_WRITE_RETRIES s4)
                  else (None, s3)))"

text \<open>
  The loop over the profile settings (lines 1647 to 1664). On a local device the
  operating mode \<^verbatim>\<open>AP\<close> is not written: its bytes are kept in \<^verbatim>\<open>_xpro_ap\<close>.
\<close>

fun set_settings ::
  "env \<Rightarrow> updater \<Rightarrow> XBeeProfileSetting list \<Rightarrow> ustate \<Rightarrow> exn option \<times> ustate" where
  "set_settings E U [] s = (None, s)"
| "set_settings E U (setting # settings) s =
     (let s1 = report_settings_progress U s;
          setting_name = py_upper (name setting)
      in andthen
           (if is_local U \<and> setting_name = ''AP''
            then (None, s1\<lparr>xpro_ap := Some (bytearray_value setting)\<rparr>)
            else set_parameter_with_retries E U setting_name (bytearray_value setting)
                   PARAMETER_WRITE_RETRIES s1)
           (\<lambda>s2. set_settings E U settings
                    (s2\<lparr>setting_index := setting_index s2 + 1,
                        network_settings_changed :=
                          (network_settings_changed s2 \<or> setting_name \<in> set PARAMETERS_NETWORK),
                        cache_settings_changed :=
                          (cache_settings_changed s2 \<or> setting_name \<in> set PARAMETERS_CACHE)\<rparr>)))"

text \<open>
  The apply-changes loop (lines 1680 to 1690): \<^verbatim>\<open>AC\<close> is written with retries, and
  the whole write is tried again when it raises an \<^verbatim>\<open>XBeeException\<close>, up to
  \<^verbatim>\<open>_PARAMETER_READ_RETRIES\<close> times.
\<close>

fun apply_changes_loop :: "env \<Rightarrow> updater \<Rightarrow> nat \<Rightarrow> ustate \<Rightarrow> exn option \<times> ustate" where
  "apply_changes_loop E U 0 s = (None, s)"
| "apply_changes_loop E U (Suc retries) s =
     (case set_parameter_with_retries E U ''AC'' (ByteArray []) PARAMETER_WRITE_RETRIES s of
        (None, s1) \<Rightarrow> (None, s1)
      | (Some e, s1) \<Rightarrow>
          if is_XBeeException e
          then (if retries = 0 then (Some e, s1) else apply_changes_loop E U retries s1)
          else (Some e, s1))"

text \<open>
  The \<^verbatim>\<open>try\<close> block of \<^verbatim>\<open>_update_device_settings\<close> (lines 1615 to 1690), before its
  \<^verbatim>\<open>except\<close> clause.
\<close>

definition update_settings_steps :: "env \<Rightarrow> updater \<Rightarrow> ustate \<Rightarrow> exn option \<times> ustate" where
  "update_settings_steps E U s =
     (let s0 = s\<lparr>previous_percent := 0, setting_index := 1,
                 num_settings := length (profile_settings (xbee_profile U)) + 2\<rparr>;
          s1 = callback U TASK_UPDATE_SETTINGS (Some 0) s0
      in andthen
           (if reset_settings (xbee_profile U) \<or> is_str (target U)
            then reset_settings_step E U s1
            else (None, s1))
           (\<lambda>s2. andthen (set_settings E U (map snd (profile_settings (xbee_profile U))) s2)
              (\<lambda>s3. andthen
                       (set_parameter_with_retries E U ''WR'' (ByteArray [])
                          PARAMETER_WRITE_RETRIES (report_settings_progress U s3))
                 (\<lambda>s4. let s5 = s4\<lparr>setting_index := setting_index s4 + 1\<rparr>;
                            percent = setting_index s5 * 100 div num_settings s5;
                            s6 = (if progress_callback U \<and> percent \<noteq> previous_percent s5
                                  then emit (Progress TASK_UPDATE_SETTINGS (Some percent)) s5
                                  else s5)
                        in apply_changes_loop E U PARAMETER_READ_RETRIES s6))))"

text \<open>
  \<^verbatim>\<open>_check_port_settings_changed\<close>. The loop state is the port settings and the four
  \<^verbatim>\<open>..._changed\<close> flags. \<^verbatim>\<open>int(setting.value, 16)\<close> raises for a value that is
  \<^verbatim>\<open>None\<close> or no number, and reading \<^verbatim>\<open>.baudrate\<close>, \<^verbatim>\<open>.parity\<close> or \<^verbatim>\<open>.stop_bits\<close>
  raises when the lookup gave \<^verbatim>\<open>None\<close>.
\<close>

record port_check =
  port :: port_parameters
  baudrate_changed :: bool
  parity_changed :: bool
  stop_bits_changed :: bool
  cts_flow_control_changed :: bool

definition int16 :: "string option \<Rightarrow> exn + int" where
  "int16 v = (case v of None \<Rightarrow> Inl TypeError | Some s \<Rightarrow> py_int 16 s)"

definition with_baudrate :: "string option \<Rightarrow> port_check \<Rightarrow> exn + port_check" where
  "with_baudrate v pc =
     (case int16 v of
        Inl e \<Rightarrow> Inl e
      | Inr index \<Rightarrow>
          (case FirmwareBaudrate_get index of
             None \<Rightarrow> Inl AttributeError
           | Some b \<Rightarrow> Inr (pc\<lparr>baudrate_changed := True, port := (port pc)\<lparr>baudrate := b\<rparr>\<rparr>)))"

definition with_parity :: "string option \<Rightarrow> port_check \<Rightarrow> exn + port_check" where
  "with_parity v pc =
     (case int16 v of
        Inl e \<Rightarrow> Inl e
      | Inr index \<Rightarrow>
          (case FirmwareParity_get index of
             None \<Rightarrow> Inl AttributeError
           | Some b \<Rightarrow> Inr (pc\<lparr>parity_changed := True, port := (port pc)\<lparr>parity := b\<rparr>\<rparr>)))"

definition with_stopbits :: "string option \<Rightarrow> port_check \<Rightarrow> exn + port_check" where
  "with_stopbits v pc =
     (case int16 v of
        Inl e \<Rightarrow> Inl e
      | Inr index \<Rightarrow>
          (case FirmwareStopbits_get index of
             None \<Rightarrow> Inl AttributeError
           | Some b \<Rightarrow> Inr (pc\<lparr>stop_bits_changed := True, port := (port pc)\<lparr>stopbits := b\<rparr>\<rparr>)))"

definition VALUE_CTS_ON :: string where
  "VALUE_CTS_ON = ''1''"

fun port_settings_of_profile :: "XBeeProfileSetting list \<Rightarrow> port_check \<Rightarrow> exn + port_check" where
  "port_settings_of_profile [] pc = Inr pc"
| "port_settings_of_profile (setting # settings) pc =
     (let setting_name = py_upper (name setting) in
      case (if setting_name = ''BD'' then with_baudrate (value setting) pc
            else if setting_name = ''NB'' then with_parity (value setting) pc
            else if setting_name = ''SB'' then with_stopbits (value setting) pc
            else if setting_name = ''D7'' then
              Inr (pc\<lparr>cts_flow_control_changed := True,
                      port := (port pc)\<lparr>rtscts := (value setting = Some VALUE_CTS_ON)\<rparr>\<rparr>)
            else Inr pc) of
        Inl e \<Rightarrow> Inl e
      | Inr pc' \<Rightarrow> port_settings_of_profile settings pc')"

text \<open>The defaults taken from the firmware descriptor after a reset (lines 1524 to 1545).\<close>

definition port_settings_defaults :: "updater \<Rightarrow> port_check \<Rightarrow> exn + port_check" where
  "port_settings_defaults U pc =
     (let default_of = get_setting_default_value (firmware_settings (xbee_profile U)) in
      if reset_settings (xbee_profile U) \<or> is_str (target U) then
        (case (if \<not> baudrate_changed pc then with_baudrate (default_of ''BD'') pc else Inr pc) of
           Inl e \<Rightarrow> Inl e
         | Inr pc1 \<Rightarrow>
             (case (if \<not> parity_changed pc1 then with_parity (default_of ''NB'') pc1
                    else Inr pc1) of
                Inl e \<Rightarrow> Inl e
              | Inr pc2 \<Rightarrow>
                  (case (if \<not> stop_bits_changed pc2 then with_stopbits (default_of ''SB'') pc2
                         else Inr pc2) of
                     Inl e \<Rightarrow> Inl e
                   | Inr pc3 \<Rightarrow>
                       Inr (if \<not> cts_flow_control_changed pc3
                            then pc3\<lparr>cts_flow_control_changed := True,
                                     port := (port pc3)\<lparr>rtscts := True\<rparr>\<rparr>
                            else pc3))))
      else Inr pc)"

definition apply_port_settings :: "env \<Rightarrow> port_parameters \<Rightarrow> ustate \<Rightarrow> exn option \<times> ustate" where
  "apply_port_settings E pp s =
     (case apply_settings_raises E (now s) of
        Some e \<Rightarrow> (Some e, emit (ApplySettings pp False) s)
      | None \<Rightarrow>
          (None, emit (ApplySettings pp True)
                   (s\<lparr>xbee_device := (xbee_device s)\<lparr>serial_port_settings := pp\<rparr>\<rparr>)))"

definition check_port_settings_changed :: "env \<Rightarrow> updater \<Rightarrow> ustate \<Rightarrow> exn option \<times> ustate" where
  "check_port_settings_changed E U s =
     (let pc0 = \<lparr>port = serial_port_settings (xbee_device s), baudrate_changed = False,
                 parity_changed = False, stop_bits_changed = False,
                 cts_flow_control_changed = False\<rparr>
      in case port_settings_of_profile (map snd (profile_settings (xbee_profile U))) pc0 of
           Inl e \<Rightarrow> (Some e, s)
         | Inr pc1 \<Rightarrow>
             (case port_settings_defaults U pc1 of
                Inl e \<Rightarrow> (Some e, s)
              | Inr pc \<Rightarrow>
                  if baudrate_changed pc \<or> parity_changed pc \<or> stop_bits_changed pc
                     \<or> cts_flow_control_changed pc
                  then reraise (\<lambda>e. is_XBeeException e \<or> e = SerialException)
                         ERROR_UPDATE_SERIAL_PORT
                         (andthen (device_close E s)
                            (\<lambda>s1. andthen (apply_port_settings E (port pc) s1) (device_open E)))
                  else (None, s)))"

text \<open>The loop that reads the node information again (lines 1719 to 1731).\<close>

fun read_device_info_loop :: "env \<Rightarrow> updater \<Rightarrow> nat \<Rightarrow> ustate \<Rightarrow> exn option \<times> ustate" where
  "read_device_info_loop E U 0 s = (None, s)"
| "read_device_info_loop E U (Suc retries) s =
     (case read_device_info_raises E (now s) of
        None \<Rightarrow> (None, emit (ReadDeviceInfo True) s)
      | Some e \<Rightarrow>
          (let s1 = emit (ReadDeviceInfo False) s in
           if is_XBeeException e then
             (if retries = 0
              then (Some (UpdateProfileException ERROR_UPDATE_TARGET_INFORMATION), s1)
              else read_device_info_loop E U retries
                     (emit (Sleep (if is_local U then 200 else 5000)) s1))
           else (Some e, s1)))"

text \<open>\<^verbatim>\<open>_update_device_settings\<close>.\<close>

definition update_device_settings :: "env \<Rightarrow> updater \<Rightarrow> ustate \<Rightarrow> exn option \<times> ustate" where
  "update_device_settings E U s =
     (let P = xbee_profile U in
      if length (profile_settings P) = 0 \<and> \<not> reset_settings P \<and> \<not> is_str (target U)
      then (None, s)
      else if is_remote (target U) \<and> protocol_changed_by_fw s
              \<and> (length (profile_settings P) > 0 \<or> reset_settings P)
      then (Some (UpdateProfileException ERROR_UPDATE_SETTINGS_PROTOCOL_CHANGE), s)
      else
        (let old_apply_settings_value = apply_changes_enabled (xbee_device s);
             s0 = enable_apply_changes False
                    (s\<lparr>network_settings_changed := False, cache_settings_changed := False\<rparr>)
         in andthen (reraise is_XBeeException ERROR_UPDATE_SETTINGS (update_settings_steps E U s0))
              (\<lambda>s1. andthen
                 (let s2 = enable_apply_changes old_apply_settings_value s1 in
                  if is_local U then check_port_settings_changed E U s2 else (None, s2))
                 (\<lambda>s3. if is_str (target U) then (None, s3)
                        else
                          (let s4 = (if network_settings_changed s3 \<or> protocol_changed_by_settings s3
                                     then (if is_local U then emit NetworkClear s3
                                           else emit NetworkRemoveDevice s3)
                                     else s3)
                           in if cache_settings_changed s4 \<or> protocol_changed_by_settings s4
                              then read_device_info_loop E U PARAMETER_READ_RETRIES
                                     (if \<not> is_local U \<and> network_settings_changed s4
                                      then emit (Sleep 15000) s4 else s4)
                              else (None, s4))))))"

subsection \<open>Phase 4: the file system\<close>

text \<open>One call of a file system collaborator.\<close>

definition fs_call :: "env \<Rightarrow> updater \<Rightarrow> fs_call \<Rightarrow> ustate \<Rightarrow> exn option \<times> ustate" where
  "fs_call E U c s =
     (case file_system_raises E (now s) c of
        Some e \<Rightarrow> (Some e, connection_side_effect E U (emit (FileSystem c False) s))
      | None \<Rightarrow> (None, connection_side_effect E U (emit (FileSystem c True) s)))"

text \<open>Reading \<^verbatim>\<open>file_system_path\<close> or \<^verbatim>\<open>remote_file_system_image\<close> of the profile.\<close>

definition asset_path :: "env \<Rightarrow> ustate \<Rightarrow> exn option \<times> ustate" where
  "asset_path E s = (uncompress_raises E (now s), s)"

text \<open>The two \<^verbatim>\<open>except\<close> clauses of the file system updates.\<close>

definition reraise_fs :: "exn option \<times> ustate \<Rightarrow> exn option \<times> ustate" where
  "reraise_fs r =
     (case r of
        (None, s) \<Rightarrow> (None, s)
      | (Some e, s) \<Rightarrow>
          (Some (if e = FileSystemNotSupportedException
                 then UpdateProfileException ERROR_FILESYSTEM_NOT_SUPPORTED
                 else if e = FileSystemException
                 then UpdateProfileException ERROR_UPDATE_FILESYSTEM
                 else e), s))"

text \<open>
  \<^verbatim>\<open>_legacy_update_file_system\<close>. In the local branch the \<^verbatim>\<open>finally\<close> clause always
  disconnects; an \<^verbatim>\<open>InvalidOperatingModeException\<close> of the disconnection is swallowed, any
  other exception of it replaces the one of the \<^verbatim>\<open>try\<close> block.
\<close>

definition legacy_update_file_system :: "env \<Rightarrow> updater \<Rightarrow> ustate \<Rightarrow> exn option \<times> ustate" where
  "legacy_update_file_system E U s =
     (let P = xbee_profile U in
      if is_local U \<and> has_local_filesystem P then
        andthen (fs_call E U NewLocalManager s)
          (\<lambda>s0. let (r, s1) =
                       reraise_fs
                         (andthen
                            (fs_call E U Connect
                               (emit (Sleep 200) (callback U TASK_CONNECT_FILESYSTEM None s0)))
                            (\<lambda>s2. andthen
                               (fs_call E U FormatFilesystem
                                  (callback U TASK_FORMAT_FILESYSTEM None s2))
                               (\<lambda>s3. andthen (asset_path E s3)
                                  (\<lambda>s4. fs_call E U LegacyPutDir
                                           (collaborator_callbacks E U s4)))))
                 in case fs_call E U Disconnect s1 of
                      (None, s5) \<Rightarrow> (r, s5)
                    | (Some e, s5) \<Rightarrow>
                        if e = InvalidOperatingModeException then (r, s5) else (Some e, s5))
      else if \<not> is_local U \<and> has_remote_filesystem P then
        (if protocol_changed_by_fw s \<or> protocol_changed_by_settings s
         then (Some (UpdateProfileException ERROR_UPDATE_FILESYSTEM_PROTOCOL_CHANGE), s)
         else
           reraise is_FileSystemException ERROR_UPDATE_FILESYSTEM
             (andthen (asset_path E s)
                (\<lambda>s1. fs_call E U UpdateFilesystemImage (collaborator_callbacks E U s1))))
      else (None, s))"

text \<open>\<^verbatim>\<open>_update_file_system\<close>.\<close>

definition update_file_system :: "env \<Rightarrow> updater \<Rightarrow> ustate \<Rightarrow> exn option \<times> ustate" where
  "update_file_system E U s =
     (if has_local_filesystem (xbee_profile U) \<and> check_fs_support E (now s) then
        reraise_fs
          (andthen (fs_call E U GetFileManager s)
             (\<lambda>s1. andthen (fs_call E U Format (callback U TASK_FORMAT_FILESYSTEM None s1))
                (\<lambda>s2. andthen (asset_path E s2)
                   (\<lambda>s3. fs_call E U PutDir (collaborator_callbacks E U s3)))))
      else legacy_update_file_system E U s)"

subsection \<open>Phase 5 and \<^verbatim>\<open>update_profile\<close>\<close>

text \<open>
  Truth value and first element of \<^verbatim>\<open>self._xpro_ap\<close>: \<^verbatim>\<open>None\<close>, an empty byte array
  and an empty string are false; the first element of a string is a string, which equals
  no operating mode code.
\<close>

fun xpro_ap_first :: "setting_value option \<Rightarrow> nat option" where
  "xpro_ap_first (Some (ByteArray (b # bs))) = Some b"
| "xpro_ap_first _ = None"

fun xpro_ap_truthy :: "setting_value option \<Rightarrow> bool" where
  "xpro_ap_truthy None = False"
| "xpro_ap_truthy (Some (ByteArray bs)) = (bs \<noteq> [])"
| "xpro_ap_truthy (Some (RawValue None)) = False"
| "xpro_ap_truthy (Some (RawValue (Some str))) = (str \<noteq> [])"

text \<open>The condition of the cleanup's first \<^verbatim>\<open>if\<close> (lines 1884 to 1887).\<close>

definition restore_ap_needed :: "env \<Rightarrow> updater \<Rightarrow> ustate \<Rightarrow> bool" where
  "restore_ap_needed E U s =
     (is_local U \<and> xpro_ap_truthy (xpro_ap s)
      \<and> (case xpro_ap_first (xpro_ap s) of
            None \<Rightarrow> False
          | Some b \<Rightarrow>
              b \<noteq> operating_mode_code E (now s)
              \<and> (b = API_MODE_code \<or> b = ESCAPED_API_MODE_code)))"

text \<open>
  The \<^verbatim>\<open>finally\<close> block of \<^verbatim>\<open>update_profile\<close> (lines 1881 to 1905);
  \<open>old_sync_ops_timeout\<close> is the local variable of that name.
\<close>

definition update_profile_finally ::
  "env \<Rightarrow> updater \<Rightarrow> int option \<Rightarrow> ustate \<Rightarrow> exn option \<times> ustate" where
  "update_profile_finally E U old_sync_ops_timeout s =
     andthen
       (if restore_ap_needed E U s then
          (let orig_ac_value = apply_changes_enabled (xbee_device s) in
           andthen
             (set_parameter_with_retries E U ''AP'' (the (xpro_ap s)) PARAMETER_WRITE_RETRIES
                (enable_apply_changes True s))
             (\<lambda>s1. andthen
                (set_parameter_with_retries E U ''WR'' (ByteArray []) PARAMETER_WRITE_RETRIES s1)
                (\<lambda>s2. (None, enable_apply_changes orig_ac_value s2))))
        else (None, s))
       (\<lambda>s3. let s4 = (case old_sync_ops_timeout of
                          None \<Rightarrow> s3
                        | Some t \<Rightarrow> set_sync_ops_timeout t s3)
              in if is_local U \<and> has_xbee_device s4 then
                   (if was_connected s4 \<and> \<not> is_open (xbee_device s4) then device_open E s4
                    else if \<not> was_connected s4 \<and> is_open (xbee_device s4) then device_close E s4
                    else (None, s4))
                 else (None, s4))"

text \<open>The \<^verbatim>\<open>try\<close> block of \<^verbatim>\<open>update_profile\<close> (lines 1834 to 1880).\<close>

definition update_profile_try :: "env \<Rightarrow> updater \<Rightarrow> ustate \<Rightarrow> exn option \<times> ustate" where
  "update_profile_try E U s =
     andthen (retrieve_device_parameters E U s)
       (\<lambda>s1. andthen (flash_firmware_step E U s1)
          (\<lambda>s2. andthen (update_device_settings E U s2)
             (\<lambda>s3. if has_filesystem (xbee_profile U) then
                      (if device_hardware_version s3 \<noteq> None
                          \<and> the (device_hardware_version s3)
                              \<notin> set (filesystem_SUPPORTED_HARDWARE_VERSIONS E)
                       then (Some (UpdateProfileException ERROR_FILESYSTEM_NOT_SUPPORTED), s3)
                       else update_file_system E U s3)
                    else (None, s3))))"

text \<open>
  The updater as \<^verbatim>\<open>__init__\<close> leaves it. For a device target \<open>D\<close> is the state of the
  handle; a serial port target has no handle yet.
\<close>

definition new_ProfileUpdater :: "env \<Rightarrow> updater \<Rightarrow> device \<Rightarrow> ustate" where
  "new_ProfileUpdater E U D =
     \<lparr>has_xbee_device = \<not> is_str (target U),
      xbee_device = (if is_str (target U) then recovery_device E else D),
      was_connected = True,
      device_firmware_version = None,
      device_hardware_version = None,
      protocol_changed_by_fw = False,
      protocol_changed_by_settings = False,
      xpro_ap = None,
      profile_protocol = protocol (xbee_profile U),
      network_settings_changed = False,
      cache_settings_changed = False,
      previous_percent = 0,
      setting_index = 0,
      num_settings = 0,
      events = []\<rparr>"

text \<open>
  How a call of \<^verbatim>\<open>update_profile\<close> ends: it returns, or an exception of the \<^verbatim>\<open>try\<close>
  block (phases 1 to 4) leaves it after the cleanup, or the cleanup itself raises (that
  exception then replaces the one of the \<^verbatim>\<open>try\<close> block, if any).
\<close>

datatype exit_path = Returned | RaisedInTry exn | RaisedInFinally exn

text \<open>
  The state in which the \<^verbatim>\<open>try\<close> block starts (lines 1827 to 1831): with a device
  handle the timeout of synchronous operations has been replaced by the updater's.
\<close>

definition update_profile_setup :: "env \<Rightarrow> updater \<Rightarrow> device \<Rightarrow> ustate" where
  "update_profile_setup E U D =
     (let s0 = new_ProfileUpdater E U D in
      if has_xbee_device s0 then set_sync_ops_timeout (timeout U) s0 else s0)"

definition update_profile :: "env \<Rightarrow> updater \<Rightarrow> device \<Rightarrow> exit_path \<times> ustate" where
  "update_profile E U D =
     (let s0 = new_ProfileUpdater E U D;
          old_sync_ops_timeout =
            (if has_xbee_device s0 then Some (sync_ops_timeout (xbee_device s0)) else None)
      in case update_profile_try E U (update_profile_setup E U D) of
           (r, s2) \<Rightarrow>
             (case update_profile_finally E U old_sync_ops_timeout s2 of
                (Some e, s3) \<Rightarrow> (RaisedInFinally e, s3)
              | (None, s3) \<Rightarrow>
                  (case r of
                     None \<Rightarrow> (Returned, s3)
                   | Some e \<Rightarrow> (RaisedInTry e, s3))))"

section \<open>The entry point\<close>

definition REMOTE_DEFAULT_TIMEOUT :: int where
  "REMOTE_DEFAULT_TIMEOUT = 20"

definition LOCAL_DEFAULT_TIMEOUT :: int where
  "LOCAL_DEFAULT_TIMEOUT = 3"

text \<open>
  What \<^verbatim>\<open>apply_xbee_profile\<close> does once its checks have passed: it hands the whole
  operation to the communication interface, or runs the updater; either way with the
  timeout it resolved.
\<close>

datatype applied =
    CommIfaceApplyProfile int
  | ProfileUpdater int exit_path ustate

text \<open>
  \<^verbatim>\<open>apply_xbee_profile\<close>. \<open>profile_path_is_str\<close> is the \<^verbatim>\<open>isinstance\<close> check of the
  path, \<open>loaded\<close> what \<^verbatim>\<open>XBeeProfile(profile_path)\<close> gives, \<open>timeout\<close> the optional
  argument (\<^verbatim>\<open>None\<close> when absent) and \<open>supports_apply_profile\<close> whether the target has a
  communication interface that supports applying profiles. \<^verbatim>\<open>not timeout\<close> is true for
  \<^verbatim>\<open>None\<close> and for 0.
\<close>

definition apply_xbee_profile ::
  "env \<Rightarrow> target \<Rightarrow> device \<Rightarrow> bool \<Rightarrow> exn + XBeeProfile \<Rightarrow> int option \<Rightarrow> bool \<Rightarrow> bool
     \<Rightarrow> exn + applied" where
  "apply_xbee_profile E tgt D profile_path_is_str loaded timeout_arg progress supports_apply_profile =
     (if \<not> is_valid_target tgt then Inl ValueError
      else if \<not> profile_path_is_str then Inl ValueError
      else
        (case loaded of
           Inl exc \<Rightarrow>
             (if exc = ValueError \<or> exc = ReadProfileException
              then Inl (UpdateProfileException ERROR_PROFILE_INVALID)
              else Inl exc)
         | Inr P \<Rightarrow>
             (let effective_timeout =
                    (if timeout_arg = None \<or> timeout_arg = Some 0
                     then (if is_str tgt \<or> is_remote tgt
                           then REMOTE_DEFAULT_TIMEOUT else LOCAL_DEFAULT_TIMEOUT)
                     else the timeout_arg)
              in if is_str tgt \<and> \<not> has_local_firmware_files P
                 then Inl (UpdateProfileException ERROR_PROFILE_INVALID)
                 else if \<not> is_str tgt \<and> supports_apply_profile
                 then Inr (CommIfaceApplyProfile effective_timeout)
                 else
                   (case update_profile E
                           \<lparr>target = tgt, xbee_profile = P, timeout = effective_timeout,
                            progress_callback = progress\<rparr> D of
                      (x, s) \<Rightarrow> Inr (ProfileUpdater effective_timeout x s)))))"

section \<open>Predicates used in the statements\<close>

text \<open>Kinds of events: a call of the flash engine, an attempt to write a parameter, a
  call of a file system collaborator, a write of \<^verbatim>\<open>AP\<close>, a write of \<^verbatim>\<open>AC\<close>.\<close>

fun is_flash :: "event \<Rightarrow> bool" where
  "is_flash (UpdateFirmware ok) = True"
| "is_flash _ = False"

fun is_set_parameter :: "event \<Rightarrow> bool" where
  "is_set_parameter (SetParameter p v ok) = True"
| "is_set_parameter _ = False"

fun is_file_system :: "event \<Rightarrow> bool" where
  "is_file_system (FileSystem c ok) = True"
| "is_file_system _ = False"

fun is_AP_write :: "event \<Rightarrow> bool" where
  "is_AP_write (SetParameter p v ok) = (p = ''AP'')"
| "is_AP_write _ = False"

fun is_AC_write :: "event \<Rightarrow> bool" where
  "is_AC_write (SetParameter p v ok) = (p = ''AC'')"
| "is_AC_write _ = False"

text \<open>How often the firmware-flash engine was called.\<close>

definition flash_call_count :: "event list \<Rightarrow> nat" where
  "flash_call_count evs = length (filter is_flash evs)"

text \<open>The percentages passed to the progress callback with the task of the settings
  phase.\<close>

fun settings_percentages :: "event list \<Rightarrow> nat list" where
  "settings_percentages [] = []"
| "settings_percentages (Progress task percent # evs) =
     (if task = TASK_UPDATE_SETTINGS
      then (case percent of
              None \<Rightarrow> settings_percentages evs
            | Some p \<Rightarrow> p # settings_percentages evs)
      else settings_percentages evs)"
| "settings_percentages (e # evs) = settings_percentages evs"

text \<open>The successful parameter writes and the switches of the apply-changes flag.\<close>

fun is_write_or_switch :: "event \<Rightarrow> bool" where
  "is_write_or_switch (SetParameter p v ok) = ok"
| "is_write_or_switch (EnableApplyChanges v) = True"
| "is_write_or_switch _ = False"

text \<open>
  A step from \<open>s\<close> to \<open>s'\<close> that leaves alone what the cleanup relies on: the remembered
  state of the connection, the presence of the handle and the connection of a remote
  handle; and that neither calls the flash engine nor writes \<^verbatim>\<open>AP\<close>.
\<close>

definition quiet :: "updater \<Rightarrow> ustate \<Rightarrow> ustate \<Rightarrow> bool" where
  "quiet U s s' =
     (was_connected s' = was_connected s
      \<and> has_xbee_device s' = has_xbee_device s
      \<and> (if is_local U then True else is_open (xbee_device s') = is_open (xbee_device s))
      \<and> filter is_flash (events s') = filter is_flash (events s)
      \<and> filter is_AP_write (events s') = filter is_AP_write (events s))"

text \<open>A step that writes no parameter, calls no file system collaborator and no flash
  engine, and leaves \<^verbatim>\<open>_xpro_ap\<close> alone.\<close>

definition silent :: "ustate \<Rightarrow> ustate \<Rightarrow> bool" where
  "silent s s' =
     (xpro_ap s' = xpro_ap s
      \<and> filter (\<lambda>e. is_set_parameter e \<or> is_file_system e \<or> is_flash e) (events s')
          = filter (\<lambda>e. is_set_parameter e \<or> is_file_system e \<or> is_flash e) (events s))"

text \<open>
  A parsed setting \<open>np\<close> (its key and the setting) comes from a raw setting of the
  profile and a descriptor entry with the same command: the key and the name are the
  upper-case command, the value is the raw text, and type and format are read off the
  entry.
\<close>

definition built_from ::
  "(string option \<times> string option) list \<Rightarrow> firmware_setting list
     \<Rightarrow> string \<times> XBeeProfileSetting \<Rightarrow> bool" where
  "built_from raw fw np =
     (\<exists>c v e. (Some c, v) \<in> set raw \<and> e \<in> set fw \<and> fs_command e = Some c
        \<and> fst np = py_upper c \<and> name (snd np) = py_upper c \<and> value (snd np) = v
        \<and> type (snd np) = setting_type_of e \<and> format (snd np) = setting_format_of e)"

section \<open>Properties of the setting codec and the region lock\<close>

lemmas py_int_defs = py_int_def py_strip_def py_isspace_def split_prefix_def py_digits_def
  digit_in_base_def digit_value_def drop_underscore_def

lemma hex_string_to_bytes_1A2B: "hex_string_to_bytes (Some ''1A2B'') = Inr [0x1A, 0x2B]"
  by (simp add: hex_string_to_bytes_def py_int_defs int_to_bytes_def)

lemma encode_ipv4_example:
  "setting_value_to_bytearray (Some TEXT) (Some IPV4) (Some ''192.168.1.1'')
     = Inr (ByteArray [192, 168, 1, 1])"
  by (simp add: setting_value_to_bytearray_def IPV4_SEPARATOR_def py_int_defs
        bytearray_of_ints_def as_bytearray_def)

text \<open>
  Claim C8. The reference equations of the setting codec: a setting of type Number or
  Combo (whatever its format) with value "1A2B" is encoded as the bytes 0x1A, 0x2B; type
  Text with format Ipv4 and value "192.168.1.1" as 192, 168, 1, 1; type Button with any
  format and any raw value as the empty byte sequence; type Text with format Ascii and
  value "ABC" as the UTF-8 bytes of "ABC", which are 0x41, 0x42, 0x43.
\<close>

theorem C8_setting_codec_reference_equations:
  "setting_value_to_bytearray (Some NUMBER) fmt (Some ''1A2B'') = Inr (ByteArray [0x1A, 0x2B])
   \<and> setting_value_to_bytearray (Some COMBO) fmt (Some ''1A2B'') = Inr (ByteArray [0x1A, 0x2B])
   \<and> setting_value_to_bytearray (Some TEXT) (Some IPV4) (Some ''192.168.1.1'')
       = Inr (ByteArray [192, 168, 1, 1])
   \<and> setting_value_to_bytearray (Some BUTTON) fmt raw = Inr (ByteArray [])
   \<and> setting_value_to_bytearray (Some TEXT) (Some ASCII) (Some ''ABC'')
       = Inr (ByteArray (utf8_bytes ''ABC''))
   \<and> utf8_bytes ''ABC'' = [0x41, 0x42, 0x43]"
  using hex_string_to_bytes_1A2B encode_ipv4_example
  by (simp add: setting_value_to_bytearray_def as_bytearray_def utf8_bytes_def)

lemma slice_1_2: "length s = 4 \<Longrightarrow> take (Suc 0) (drop (Suc 0) s) = [s ! Suc 0]"
  by (cases s; cases "tl s") auto

lemma py_int_auto_2: "py_int 0 ''2'' = Inr 2"
  by (simp add: py_int_defs)

text \<open>
  Claim C9. When the region element of the firmware descriptor is the sentinel 99, the
  resolved region lock is 0 if the firmware version rendered as a 2-byte hex string does
  not have length 4, and otherwise the integer parse, with automatic base detection, of the
  single character at index 1 of that string (a parse that fails makes the resolution
  fail); in particular a firmware version that renders to "1234" resolves to region 2.
\<close>

theorem C9_region_lock_resolution:
  "resolve_region_lock (Some 99) fw =
     (if length (fw_version_str fw) \<noteq> 4 then Inr (Some 0)
      else (case py_int 0 [fw_version_str fw ! 1] of
              Inl e \<Rightarrow> Inl e
            | Inr n \<Rightarrow> Inr (Some n)))
   \<and> (fw_version_str fw = ''1234'' \<longrightarrow> resolve_region_lock (Some 99) fw = Inr (Some 2))"
  by (simp add: resolve_region_lock_def Let_def slice_1_2 py_int_auto_2)

lemma fw_version_str_1234: "fw_version_str 0x1234 = ''1234''"
  by (simp add: fw_version_str_def hex_to_string_def int_to_bytes_def byte_to_hex_def
        hex_digit_def)

theorem C9_region_lock_resolution_witness:
  "fw_version_str 0x1234 = ''1234'' \<and> resolve_region_lock (Some 99) 0x1234 = Inr (Some 2)"
  using C9_region_lock_resolution [of "0x1234"] fw_version_str_1234 by blast

section \<open>Properties of the scratch directory\<close>

lemma no_profile_folder_attribute: "\<not> hasattr_XBeeProfile ''profile_folder''"
  by (simp add: hasattr_XBeeProfile_def XBeeProfile_attribute_names_def)

text \<open>
  Claim C3. The end of a profile object's lifetime should remove the scratch directory
  that lazy asset extraction created. In the code \<^verbatim>\<open>__del__\<close> first tests
  \<^verbatim>\<open>hasattr(self, 'profile_folder')\<close>, a name the object never has (the attribute is
  \<^verbatim>\<open>_profile_folder\<close>), and returns: after the first asset access has created
  \<^verbatim>\<open>/tmp/tmpk3x\<close>, \<^verbatim>\<open>__del__\<close> leaves that directory on disk.
\<close>

theorem C3_del_keeps_scratch_directory:
  "lazy_asset_access (Inr ''/tmp/tmpk3x'') None \<lparr>priv_profile_folder = None, directories = {}\<rparr>
     = (None, \<lparr>priv_profile_folder = Some ''/tmp/tmpk3x'', directories = {''/tmp/tmpk3x''}\<rparr>)
   \<and> directories (XBeeProfile_del
        \<lparr>priv_profile_folder = Some ''/tmp/tmpk3x'', directories = {''/tmp/tmpk3x''}\<rparr>)
       = {''/tmp/tmpk3x''}"
  by (simp add: lazy_asset_access_def uncompress_profile_def XBeeProfile_del_def
        no_profile_folder_attribute)

section \<open>Properties of the entry point\<close>

text \<open>
  Claim C10. In \<^verbatim>\<open>apply_xbee_profile\<close> a timeout of 0 given by the caller is not
  honoured: the call behaves exactly as with no timeout, that is as with the default of 20
  seconds for a serial port or a remote target and of 3 seconds for a local device.
\<close>

theorem C10_zero_timeout_replaced_by_default:
  "apply_xbee_profile E tgt D profile_path_is_str loaded (Some 0) progress supports
     = apply_xbee_profile E tgt D profile_path_is_str loaded None progress supports
   \<and> apply_xbee_profile E tgt D profile_path_is_str loaded (Some 0) progress supports
     = apply_xbee_profile E tgt D profile_path_is_str loaded
         (Some (if is_str tgt \<or> is_remote tgt then 20 else 3)) progress supports"
  by (cases loaded)
     (simp_all add: apply_xbee_profile_def REMOTE_DEFAULT_TIMEOUT_def
        LOCAL_DEFAULT_TIMEOUT_def Let_def)

section \<open>Properties of the settings parse\<close>

lemma new_XBeeProfileSetting_fields:
  "new_XBeeProfileSetting n ty fmt v = Inr p \<Longrightarrow>
     name p = n \<and> type p = ty \<and> format p = fmt \<and> value p = v"
  by (auto simp: new_XBeeProfileSetting_def split: sum.splits)

lemma dict_set_map_fst:
  "map fst (dict_set k v kvs) = (if k \<in> set (map fst kvs) then map fst kvs else map fst kvs @ [k])"
proof (induction kvs)
  case Nil
  then show ?case by simp
next
  case (Cons kv kvs)
  have in_keys: "a \<in> fst ` set kvs" if "(a, b) \<in> set kvs" for a b
    using that by force
  obtain k' v' where kv: "kv = (k', v')" by (cases kv)
  from Cons kv show ?case by (auto dest: in_keys)
qed

lemma dict_set_keys: "fst ` set (dict_set k v kvs) = insert k (fst ` set kvs)"
proof -
  have "set (map fst (dict_set k v kvs)) = insert k (set (map fst kvs))"
    unfolding dict_set_map_fst by auto
  then show ?thesis by simp
qed

lemma dict_set_entries:
  "x \<in> set (dict_set k v kvs) \<Longrightarrow> x = (k, v) \<or> x \<in> set kvs"
  by (induction kvs) (auto split: if_splits)

lemma match_unmatched:
  "k \<notin> fs_command ` set fw \<Longrightarrow> match_firmware_settings k v fw ps = Inr ps"
  by (induction fw arbitrary: ps) auto

lemma match_keys:
  "match_firmware_settings k v fw ps = Inr ps' \<Longrightarrow>
     fst ` set ps' = fst ` set ps \<union> (if k \<in> fs_command ` set fw then {py_upper (the k)} else {})
     \<and> (k \<in> fs_command ` set fw \<longrightarrow> k \<noteq> None)"
proof (induction fw arbitrary: ps)
  case Nil
  then show ?case by simp
next
  case (Cons e fw)
  show ?case
  proof (cases "fs_command e = k")
    case False
    with Cons.prems have "match_firmware_settings k v fw ps = Inr ps'" by simp
    from Cons.IH [OF this] False show ?thesis by auto
  next
    case True
    with Cons.prems obtain c p where k: "k = Some c"
      and p: "new_XBeeProfileSetting (py_upper c) (setting_type_of e) (setting_format_of e) v = Inr p"
      and rest: "match_firmware_settings k v fw (dict_set (name p) p ps) = Inr ps'"
      by (auto split: option.splits sum.splits if_splits)
    from new_XBeeProfileSetting_fields [OF p] have n: "name p = py_upper c" by simp
    from Cons.IH [OF rest] True k n show ?thesis
      by (auto simp: dict_set_keys)
  qed
qed

lemma match_entries:
  "match_firmware_settings k v fw ps = Inr ps' \<Longrightarrow> x \<in> set ps' \<Longrightarrow>
     x \<in> set ps \<or> built_from [(k, v)] fw x"
proof (induction fw arbitrary: ps)
  case Nil
  then show ?case by simp
next
  case (Cons e fw)
  show ?case
  proof (cases "fs_command e = k")
    case False
    with Cons.prems have "match_firmware_settings k v fw ps = Inr ps'" by simp
    from Cons.IH [OF this Cons.prems(2)] show ?thesis
      by (auto simp: built_from_def)
  next
    case True
    with Cons.prems obtain c p where k: "k = Some c"
      and p: "new_XBeeProfileSetting (py_upper c) (setting_type_of e) (setting_format_of e) v = Inr p"
      and rest: "match_firmware_settings k v fw (dict_set (name p) p ps) = Inr ps'"
      by (auto split: option.splits sum.splits if_splits)
    note f = new_XBeeProfileSetting_fields [OF p]
    from Cons.IH [OF rest Cons.prems(2)]
    consider "x \<in> set (dict_set (name p) p ps)" | "built_from [(k, v)] fw x" by blast
    then show ?thesis
    proof cases
      case 1
      then have "x = (name p, p) \<or> x \<in> set ps" by (rule dict_set_entries)
      then show ?thesis
      proof
        assume "x = (name p, p)"
        with f True k have "built_from [(k, v)] (e # fw) x"
          by (auto simp: built_from_def)
        then show ?thesis ..
      qed simp
    next
      case 2
      then show ?thesis by (auto simp: built_from_def)
    qed
  qed
qed

lemma parse_keys:
  "parse_at_settings raw fw ps = Inr ps' \<Longrightarrow>
     fst ` set ps' = fst ` set ps
        \<union> {py_upper c | c v. (Some c, v) \<in> set raw \<and> Some c \<in> fs_command ` set fw}"
proof (induction raw arbitrary: ps)
  case Nil
  then show ?case by simp
next
  case (Cons kv raw)
  obtain k v where kv: "kv = (k, v)" by (cases kv)
  with Cons.prems obtain ps1 where m: "match_firmware_settings k v fw ps = Inr ps1"
    and r: "parse_at_settings raw fw ps1 = Inr ps'"
    by (auto split: sum.splits)
  from match_keys [OF m] Cons.IH [OF r] kv show ?case
    by (cases k) (auto split: if_splits)
qed

lemma parse_entries:
  "parse_at_settings raw fw ps = Inr ps' \<Longrightarrow> x \<in> set ps' \<Longrightarrow>
     x \<in> set ps \<or> built_from raw fw x"
proof (induction raw arbitrary: ps)
  case Nil
  then show ?case by simp
next
  case (Cons kv raw)
  obtain k v where kv: "kv = (k, v)" by (cases kv)
  with Cons.prems obtain ps1 where m: "match_firmware_settings k v fw ps = Inr ps1"
    and r: "parse_at_settings raw fw ps1 = Inr ps'"
    by (auto split: sum.splits)
  from Cons.IH [OF r Cons.prems(2)] consider "x \<in> set ps1" | "built_from raw fw x" by blast
  then show ?case
  proof cases
    case 1
    from match_entries [OF m 1] kv show ?thesis by (auto simp: built_from_def)
  next
    case 2
    then show ?thesis by (auto simp: built_from_def)
  qed
qed

lemma parse_drop_unmatched:
  "parse_at_settings (filter (\<lambda>kv. fst kv \<in> fs_command ` set fw) raw) fw ps
     = parse_at_settings raw fw ps"
proof (induction raw arbitrary: ps)
  case Nil
  then show ?case by simp
next
  case (Cons kv raw)
  obtain k v where kv: "kv = (k, v)" by (cases kv)
  show ?case
  proof (cases "k \<in> fs_command ` set fw")
    case True
    with kv Cons.IH show ?thesis by (simp split: sum.splits)
  next
    case False
    with kv Cons.IH show ?thesis by (simp add: match_unmatched)
  qed
qed

text \<open>
  Claim C2, as stated, fails: a raw setting whose command has no entry in the firmware
  descriptor yields no profile setting at all. Here the archive holds the setting
  \<^verbatim>\<open>ZZ\<close>, the descriptor only knows \<^verbatim>\<open>NI\<close>, the parse succeeds and the parsed settings
  are empty.
\<close>

theorem C2_unmatched_setting_dropped:
  "parse_profile_settings [(Some ''ZZ'', Some ''1'')]
     [\<lparr>fs_command = Some ''NI'', fs_control_type = Some (Some ''text''),
       fs_format = Some (Some ''ASCII''), fs_default_value = Some (Some '' '')\<rparr>] = Inr []"
  by (simp add: parse_profile_settings_def)

text \<open>
  Claim C2, amended. Raw settings whose command matches no entry of the firmware
  descriptor's catalog have no effect on the parse: removing them changes neither its
  success nor its result, so a missing match never causes an error. For a successfully
  parsed archive the keys of the parsed settings are exactly the upper-case commands of the
  raw settings that match at least one entry, and every parsed setting is built from a raw
  setting and a matching entry: its type is the entry's \<^verbatim>\<open>control_type\<close>, or NoType when
  the entry has no such child, and its format is the entry's \<^verbatim>\<open>format\<close>, or NoFormat
  when the entry has no such child.
\<close>

theorem C2_matched_settings_parsed:
  "parse_profile_settings (filter (\<lambda>kv. fst kv \<in> fs_command ` set fw) raw) fw
     = parse_profile_settings raw fw
   \<and> (parse_profile_settings raw fw = Inr ps \<longrightarrow>
        fst ` set ps
          = {py_upper c | c v. (Some c, v) \<in> set raw \<and> Some c \<in> fs_command ` set fw}
        \<and> (\<forall>np \<in> set ps. built_from raw fw np))"
proof -
  have a: "parse_profile_settings (filter (\<lambda>kv. fst kv \<in> fs_command ` set fw) raw) fw
     = parse_profile_settings raw fw"
    by (simp add: parse_profile_settings_def parse_drop_unmatched)
  have b: "fst ` set ps
             = {py_upper c | c v. (Some c, v) \<in> set raw \<and> Some c \<in> fs_command ` set fw}
        \<and> (\<forall>np \<in> set ps. built_from raw fw np)" if "parse_profile_settings raw fw = Inr ps"
  proof -
    from that have p: "parse_at_settings raw fw [] = Inr ps"
      by (auto simp: parse_profile_settings_def split: sum.splits)
    from parse_keys [OF p] parse_entries [OF p] show ?thesis by auto
  qed
  from a b show ?thesis by blast
qed

theorem C2_matched_settings_parsed_witness:
  "parse_profile_settings
     [(Some ''NI'', Some ''node''), (Some ''ZZ'', Some ''1''), (Some ''AC'', None)]
     [\<lparr>fs_command = Some ''NI'', fs_control_type = Some (Some ''text''),
       fs_format = Some (Some ''ASCII''), fs_default_value = Some (Some '' '')\<rparr>,
      \<lparr>fs_command = Some ''AC'', fs_control_type = None, fs_format = None,
       fs_default_value = None\<rparr>]
     = Inr [(''NI'', \<lparr>name = ''NI'', type = Some TEXT, format = Some ASCII,
                     value = Some ''node'', bytearray_value = ByteArray [110, 111, 100, 101]\<rparr>),
            (''AC'', \<lparr>name = ''AC'', type = Some NO_TYPE, format = Some NO_FORMAT,
                     value = None, bytearray_value = ByteArray []\<rparr>)]
   \<and> fst ` set [(''NI'', \<lparr>name = ''NI'', type = Some TEXT, format = Some ASCII,
                     value = Some ''node'', bytearray_value = ByteArray [110, 111, 100, 101]\<rparr>),
            (''AC'', \<lparr>name = ''AC'', type = Some NO_TYPE, format = Some NO_FORMAT,
                     value = None, bytearray_value = ByteArray []\<rparr>)]
      = {py_upper c | c v.
           (Some c, v) \<in> set [(Some ''NI'', Some ''node''), (Some ''ZZ'', Some ''1''),
                              (Some ''AC'', None)]
           \<and> Some c \<in> fs_command `
               set [\<lparr>fs_command = Some ''NI'', fs_control_type = Some (Some ''text''),
                      fs_format = Some (Some ''ASCII''), fs_default_value = Some (Some '' '')\<rparr>,
                    \<lparr>fs_command = Some ''AC'', fs_control_type = None, fs_format = None,
                      fs_default_value = None\<rparr>]}"
proof -
  have e: "parse_profile_settings
     [(Some ''NI'', Some ''node''), (Some ''ZZ'', Some ''1''), (Some ''AC'', None)]
     [\<lparr>fs_command = Some ''NI'', fs_control_type = Some (Some ''text''),
       fs_format = Some (Some ''ASCII''), fs_default_value = Some (Some '' '')\<rparr>,
      \<lparr>fs_command = Some ''AC'', fs_control_type = None, fs_format = None,
       fs_default_value = None\<rparr>]
     = Inr [(''NI'', \<lparr>name = ''NI'', type = Some TEXT, format = Some ASCII,
                     value = Some ''node'', bytearray_value = ByteArray [110, 111, 100, 101]\<rparr>),
            (''AC'', \<lparr>name = ''AC'', type = Some NO_TYPE, format = Some NO_FORMAT,
                     value = None, bytearray_value = ByteArray []\<rparr>)]"
    by (simp add: parse_profile_settings_def new_XBeeProfileSetting_def
          setting_type_of_def setting_format_of_def XBeeSettingType_get_def
          XBeeSettingFormat_get_def setting_value_to_bytearray_def utf8_bytes_def py_upper_def)
  from C2_matched_settings_parsed
         [of "[\<lparr>fs_command = Some ''NI'', fs_control_type = Some (Some ''text''),
                 fs_format = Some (Some ''ASCII''), fs_default_value = Some (Some '' '')\<rparr>,
               \<lparr>fs_command = Some ''AC'', fs_control_type = None, fs_format = None,
                 fs_default_value = None\<rparr>]"
             "[(Some ''NI'', Some ''node''), (Some ''ZZ'', Some ''1''), (Some ''AC'', None)]"] e
  show ?thesis by blast
qed

end
